theory Spec2Isabelle
  imports Main "HOL-Library.Sublist"
begin

section \<open>Data model of package trello\<close>

text \<open>
  The embedding follows the most capable variant of the package (the one with
  \<open>ListService\<close>, \<open>Rename\<close> and \<open>Close\<close>). Go pointers that may be nil are options
  (\<open>None\<close> is nil); the client is never mutated after construction, so a pointer to it is
  modelled by the value it points to. An interface value holding a pointer is an option
  as well (\<open>None\<close> is the nil interface). The concrete types are unexported, so a method
  is only ever called on a value the package built: receivers are not nil, their
  \<open>client\<close> field may be.
\<close>

record client =
  key :: string
  token :: string

record boardService =
  bs_client :: "client option"

record listService =
  ls_client :: "client option"

text \<open>Values of the loosely typed fields (\<open>interface{}\<close>); numbers keep their literal.\<close>

datatype json =
    JNull
  | JBool bool
  | JNumber string
  | JString string
  | JArray "json list"
  | JObject "(string \<times> json) list"

record list_t =
  list_client :: "client option"
  list_ID :: string
  ListName :: string

record board =
  board_client :: "client option"
  board_ID :: string
  DescData :: json
  Closed :: bool
  IDOrganization :: json
  Pinned :: bool
  ShortURL :: string
  Desc :: string
  BoardName :: string
  board_URL :: string
  Prefs :: "(string \<times> json) list"
  LabelNames :: "(string \<times> json) list"
  BoardLists :: "list_t option list option"

text \<open>
  Errors are values. \<open>errorString\<close> is what \<open>errors.New\<close> builds; the other three are the
  errors of \<open>http.NewRequest\<close>, of \<open>http.Client.Do\<close> and of the JSON decoder.
\<close>

datatype error =
    url_Error string
  | transport_Error string
  | json_Error string
  | errorString string

fun Error :: "error \<Rightarrow> string" where
  "Error (url_Error s) = s"
| "Error (transport_Error s) = s"
| "Error (json_Error s) = s"
| "Error (errorString s) = s"

definition errors_New :: "string \<Rightarrow> error" where
  "errors_New text = errorString text"

text \<open>A call either returns or panics (nil pointer dereference).\<close>

datatype 'a outcome = Return 'a | Panic

section \<open>The HTTP transport and the JSON decoder\<close>

record request =
  Method :: string
  URL :: string

text \<open>\<open>Body\<close> is the handle of the response body in the world's table of bodies.\<close>

record response =
  StatusCode :: int
  Status :: string
  Body :: nat
  BodyData :: string

text \<open>
  What lies outside the package: which URLs parse, what the remote server answers to a
  request (status code, status text and body, or a transport error), and what the JSON
  decoder reads from a body. \<open>json_board\<close> fills a zero \<open>board\<close>; \<open>json_list\<close> yields the
  \<open>id\<close> and \<open>name\<close> members that are present.
\<close>

record env =
  url_Parse :: "string \<Rightarrow> error option"
  RoundTrip :: "request \<Rightarrow> error + (int \<times> string \<times> string)"
  json_board :: "string \<Rightarrow> error + board"
  json_list :: "string \<Rightarrow> error + (string option \<times> string option)"

text \<open>
  The observable state: the requests handed to the transport, in order, and for every
  response body opened so far whether it is still open.
\<close>

record world =
  sent :: "request list"
  bodies :: "bool list"

definition http_NewRequest :: "env \<Rightarrow> string \<Rightarrow> string \<Rightarrow> error + request" where
  "http_NewRequest E method url =
     (case url_Parse E url of
        Some err \<Rightarrow> Inl err
      | None \<Rightarrow> Inr \<lparr>Method = method, URL = url\<rparr>)"

definition http_Do :: "env \<Rightarrow> request \<Rightarrow> world \<Rightarrow> (error + response) \<times> world" where
  "http_Do E req w =
     (let w1 = w\<lparr>sent := sent w @ [req]\<rparr> in
      case RoundTrip E req of
        Inl err \<Rightarrow> (Inl err, w1)
      | Inr (code, status, data) \<Rightarrow>
          (Inr \<lparr>StatusCode = code, Status = status,
                Body = length (bodies w1), BodyData = data\<rparr>,
           w1\<lparr>bodies := bodies w1 @ [True]\<rparr>))"

definition Body_Close :: "response \<Rightarrow> world \<Rightarrow> world" where
  "Body_Close resp w = w\<lparr>bodies := (bodies w)[Body resp := False]\<rparr>"

text \<open>
  Fields tagged \<open>json:"-"\<close> are never written by the decoder: in a board decoded into a
  zero struct the client is nil, and so it is in every list the decoder allocates.
\<close>

definition Decode_board :: "env \<Rightarrow> string \<Rightarrow> error + board" where
  "Decode_board E data =
     (case json_board E data of
        Inl err \<Rightarrow> Inl err
      | Inr d \<Rightarrow>
          Inr (d\<lparr>board_client := None,
                 BoardLists :=
                   map_option (map (map_option (\<lambda>l. l\<lparr>list_client := None\<rparr>)))
                     (BoardLists d)\<rparr>))"

definition Decode_list :: "env \<Rightarrow> string \<Rightarrow> list_t \<Rightarrow> error + list_t" where
  "Decode_list E data ll =
     (case json_list E data of
        Inl err \<Rightarrow> Inl err
      | Inr (i, n) \<Rightarrow>
          Inr (ll\<lparr>list_ID := (case i of None \<Rightarrow> list_ID ll | Some v \<Rightarrow> v),
                  ListName := (case n of None \<Rightarrow> ListName ll | Some v \<Rightarrow> v)\<rparr>))"

section \<open>url.QueryEscape\<close>

text \<open>
  \<open>net/url\<close> belongs to the Go standard library, not to the package; its escaping of a
  query component is written out because \<open>Rename\<close> and \<open>Create\<close> call it: letters,
  digits and \<open>- _ . ~\<close> stay, a space becomes \<open>+\<close>, every other byte becomes \<open>%\<close> and
  its two upper-case hexadecimal digits. Strings are byte sequences, as in Go.
\<close>

definition upperhex :: string where
  "upperhex = ''0123456789ABCDEF''"

definition unreserved :: string where
  "unreserved =
     ''abcdefghijklmnopqrstuvwxyzABCDEFGHIJKLMNOPQRSTUVWXYZ0123456789-_.~''"

definition shouldEscape :: "char \<Rightarrow> bool" where
  "shouldEscape c = (c \<notin> set unreserved)"

fun QueryEscape :: "string \<Rightarrow> string" where
  "QueryEscape [] = []"
| "QueryEscape (c # s) =
     (if shouldEscape c then
        (if c = CHR '' '' then CHR ''+'' # QueryEscape s
         else CHR ''%'' # upperhex ! (of_char c div 16) # upperhex ! (of_char c mod 16)
                # QueryEscape s)
      else c # QueryEscape s)"

section \<open>The client and its services\<close>

definition NewClient :: "string \<Rightarrow> string \<Rightarrow> client" where
  "NewClient k t = \<lparr>key = k, token = t\<rparr>"

definition BoardService :: "client \<Rightarrow> boardService" where
  "BoardService c = \<lparr>bs_client = Some c\<rparr>"

definition ListService :: "client \<Rightarrow> listService" where
  "ListService c = \<lparr>ls_client = Some c\<rparr>"

definition baseURL :: string where
  "baseURL = ''https://api.trello.com''"

subsection \<open>BoardService.GetBoard\<close>

text \<open>
  Each operation starts by formatting \<open>restURL\<close> and appending the token when the client
  has one; that part of the function is a definition of its own, so that the URL handed
  to \<open>http.NewRequest\<close> can be named.
\<close>

definition GetBoard_restURL :: "client \<Rightarrow> string \<Rightarrow> string" where
  "GetBoard_restURL c id' =
     (let restURL = baseURL @ ''/1/boards/'' @ id' @ ''?key='' @ key c
      in if length (token c) > 0 then restURL @ ''&token='' @ token c else restURL)"

definition GetBoard ::
  "env \<Rightarrow> boardService \<Rightarrow> string \<Rightarrow> world \<Rightarrow> (board option \<times> error option) outcome \<times> world"
where
  "GetBoard E b id' w =
     (case bs_client b of
        None \<Rightarrow> (Panic, w)
      | Some c \<Rightarrow>
          (case http_NewRequest E ''GET'' (GetBoard_restURL c id') of
             Inl err \<Rightarrow> (Return (None, Some err), w)
           | Inr req \<Rightarrow>
               (case http_Do E req w of
                  (Inl err, w1) \<Rightarrow> (Return (None, Some err), w1)
                | (Inr resp, w1) \<Rightarrow>
                    (case Decode_board E (BodyData resp) of
                       Inl err \<Rightarrow> (Return (None, Some err), Body_Close resp w1)
                     | Inr d \<Rightarrow>
                         (Return (Some (d\<lparr>board_client := bs_client b\<rparr>), None),
                          Body_Close resp w1)))))"

subsection \<open>Board\<close>

definition board_GetID :: "board \<Rightarrow> string" where
  "board_GetID b = board_ID b"

definition board_Name :: "board \<Rightarrow> string" where
  "board_Name b = BoardName b"

definition Lists_restURL :: "client \<Rightarrow> board \<Rightarrow> string" where
  "Lists_restURL c b =
     (let restURL = baseURL @ ''/1/boards/'' @ board_ID b @ ''?key='' @ key c @ ''&lists=all''
      in if length (token c) > 0 then restURL @ ''&token='' @ token c else restURL)"

text \<open>
  The loop of \<open>Lists\<close>: \<open>ls\<close> is the slice of interface values made beforehand; element
  \<open>i\<close> of the decoded lists is stamped with the client and stored at index \<open>i\<close>. A nil
  element (a JSON \<open>null\<close>) makes the assignment to its field panic.
\<close>

fun Lists_loop ::
  "client option \<Rightarrow> nat \<Rightarrow> list_t option list \<Rightarrow> list_t option list \<Rightarrow> list_t option list outcome"
where
  "Lists_loop c i [] ls = Return ls"
| "Lists_loop c i (None # rest) ls = Panic"
| "Lists_loop c i (Some l # rest) ls =
     Lists_loop c (Suc i) rest (ls[i := Some (l\<lparr>list_client := c\<rparr>)])"

text \<open>A nil slice has length 0 and no elements to range over.\<close>

definition elems :: "'a list option \<Rightarrow> 'a list" where
  "elems s = (case s of None \<Rightarrow> [] | Some xs \<Rightarrow> xs)"

definition Lists ::
  "env \<Rightarrow> board \<Rightarrow> world \<Rightarrow> (list_t option list option \<times> error option) outcome \<times> world"
where
  "Lists E b w =
     (case board_client b of
        None \<Rightarrow> (Panic, w)
      | Some c \<Rightarrow>
          (case http_NewRequest E ''GET'' (Lists_restURL c b) of
             Inl err \<Rightarrow> (Return (None, Some err), w)
           | Inr req \<Rightarrow>
               (case http_Do E req w of
                  (Inl err, w1) \<Rightarrow> (Return (None, Some err), w1)
                | (Inr resp, w1) \<Rightarrow>
                    (case Decode_board E (BodyData resp) of
                       Inl err \<Rightarrow> (Return (None, Some err), Body_Close resp w1)
                     | Inr d \<Rightarrow>
                         (let w2 = Body_Close resp w1;
                              ls = replicate (length (elems (BoardLists d))) None
                          in case Lists_loop (board_client b) 0 (elems (BoardLists d)) ls of
                               Panic \<Rightarrow> (Panic, w2)
                             | Return ls' \<Rightarrow> (Return (Some ls', None), w2))))))"

subsection \<open>List\<close>

definition list_Name :: "list_t \<Rightarrow> string" where
  "list_Name l = ListName l"

definition list_GetID :: "list_t \<Rightarrow> string" where
  "list_GetID l = list_ID l"

definition Rename_restURL :: "client \<Rightarrow> list_t \<Rightarrow> string \<Rightarrow> string" where
  "Rename_restURL c l newName =
     (let restURL = baseURL @ ''/1/lists/'' @ list_ID l @ ''/name?key='' @ key c
                      @ ''&value='' @ QueryEscape newName
      in if length (token c) > 0 then restURL @ ''&token='' @ token c else restURL)"

text \<open>Neither \<open>Rename\<close> nor \<open>Close\<close> reads the response body or closes it.\<close>

definition Rename :: "env \<Rightarrow> list_t \<Rightarrow> string \<Rightarrow> world \<Rightarrow> error option outcome \<times> world" where
  "Rename E l newName w =
     (case list_client l of
        None \<Rightarrow> (Panic, w)
      | Some c \<Rightarrow>
          (case http_NewRequest E ''PUT'' (Rename_restURL c l newName) of
             Inl err \<Rightarrow> (Return (Some err), w)
           | Inr req \<Rightarrow>
               (case http_Do E req w of
                  (Inl err, w1) \<Rightarrow> (Return (Some err), w1)
                | (Inr resp, w1) \<Rightarrow>
                    (if StatusCode resp < 200 \<or> StatusCode resp > 299
                     then (Return (Some (errors_New (''bad response code: '' @ Status resp))),
                           w1)
                     else (Return None, w1)))))"

definition Close_restURL :: "client \<Rightarrow> list_t \<Rightarrow> string" where
  "Close_restURL c l =
     (let restURL = baseURL @ ''/1/lists/'' @ list_ID l @ ''/name?key='' @ key c
                      @ ''&value=true''
      in if length (token c) > 0 then restURL @ ''&token='' @ token c else restURL)"

definition Close :: "env \<Rightarrow> list_t \<Rightarrow> world \<Rightarrow> error option outcome \<times> world" where
  "Close E l w =
     (case list_client l of
        None \<Rightarrow> (Panic, w)
      | Some c \<Rightarrow>
          (case http_NewRequest E ''PUT'' (Close_restURL c l) of
             Inl err \<Rightarrow> (Return (Some err), w)
           | Inr req \<Rightarrow>
               (case http_Do E req w of
                  (Inl err, w1) \<Rightarrow> (Return (Some err), w1)
                | (Inr resp, w1) \<Rightarrow>
                    (if StatusCode resp < 200 \<or> StatusCode resp > 299
                     then (Return (Some (errors_New (''bad response code: '' @ Status resp))),
                           w1)
                     else (Return None, w1)))))"

subsection \<open>ListService.Create\<close>

definition Create_restURL :: "client \<Rightarrow> string \<Rightarrow> string \<Rightarrow> string \<Rightarrow> string" where
  "Create_restURL c name boardID pos =
     (let restURL = baseURL @ ''/1/lists?key='' @ key c @ ''&name='' @ QueryEscape name
                      @ ''&idBoard='' @ QueryEscape boardID;
          restURL = (if length pos > 0 then restURL @ ''&pos='' @ pos else restURL)
      in if length (token c) > 0 then restURL @ ''&token='' @ token c else restURL)"

definition Create ::
  "env \<Rightarrow> listService \<Rightarrow> string \<Rightarrow> string \<Rightarrow> string \<Rightarrow> world
     \<Rightarrow> (list_t option \<times> error option) outcome \<times> world"
where
  "Create E l name boardID pos w =
     (case ls_client l of
        None \<Rightarrow> (Panic, w)
      | Some c \<Rightarrow>
          (case http_NewRequest E ''POST'' (Create_restURL c name boardID pos) of
             Inl err \<Rightarrow> (Return (None, Some err), w)
           | Inr req \<Rightarrow>
               (case http_Do E req w of
                  (Inl err, w1) \<Rightarrow> (Return (None, Some err), w1)
                | (Inr resp, w1) \<Rightarrow>
                    (if StatusCode resp < 200 \<or> StatusCode resp > 299
                     then (Return (None,
                             Some (errors_New (''bad response code: '' @ Status resp))), w1)
                     else
                       (let ll = \<lparr>list_client = ls_client l, list_ID = [], ListName = []\<rparr>
                        in case Decode_list E (BodyData resp) ll of
                             Inl err \<Rightarrow> (Return (None, Some err), Body_Close resp w1)
                           | Inr ll' \<Rightarrow> (Return (Some ll', None), Body_Close resp w1))))))"

section \<open>Reading a request URL\<close>

text \<open>
  The vocabulary of the claims about query strings, as \<open>net/url\<close> splits a URL: the
  fragment starts at the first \<open>#\<close>, the query is what follows the first \<open>?\<close> before it,
  and the query is a sequence of \<open>name=value\<close> parameters separated by \<open>&\<close>.
\<close>

definition RawQuery :: "string \<Rightarrow> string" where
  "RawQuery url =
     drop 1 (dropWhile (\<lambda>c. c \<noteq> CHR ''?'') (takeWhile (\<lambda>c. c \<noteq> CHR ''#'') url))"

fun split_on :: "char \<Rightarrow> string \<Rightarrow> string list" where
  "split_on d [] = [[]]"
| "split_on d (c # s) =
     (if c = d then [] # split_on d s
      else (case split_on d s of [] \<Rightarrow> [[c]] | x # xs \<Rightarrow> (c # x) # xs))"

definition query_names :: "string \<Rightarrow> string list" where
  "query_names url =
     map (takeWhile (\<lambda>c. c \<noteq> CHR ''=''))
       (filter (\<lambda>p. p \<noteq> []) (split_on CHR ''&'' (RawQuery url)))"

definition has_param :: "string \<Rightarrow> string \<Rightarrow> bool" where
  "has_param name url = (name \<in> set (query_names url))"

text \<open>The parameters with their values, each split at its first \<open>=\<close>.\<close>

definition query_params :: "string \<Rightarrow> (string \<times> string) list" where
  "query_params url =
     map (\<lambda>p. (takeWhile (\<lambda>c. c \<noteq> CHR ''='') p, drop 1 (dropWhile (\<lambda>c. c \<noteq> CHR ''='') p)))
       (filter (\<lambda>p. p \<noteq> []) (split_on CHR ''&'' (RawQuery url)))"

text \<open>
  The characters that structure a URL: the separators of the query, of the path and of the
  fragment, and the space.
\<close>

definition delimiters :: string where
  "delimiters = ''&?/#= ''"

text \<open>
  \<open>url.QueryUnescape\<close>, the inverse of the escaping: \<open>%XY\<close> is the byte with the
  hexadecimal digits \<open>X\<close> and \<open>Y\<close>, \<open>+\<close> is a space; a \<open>%\<close> not followed by two
  hexadecimal digits is an error.
\<close>

definition unhex :: "char \<Rightarrow> nat option" where
  "unhex c =
     (let n = (of_char c :: nat)
      in if 48 \<le> n \<and> n \<le> 57 then Some (n - 48)
         else if 97 \<le> n \<and> n \<le> 102 then Some (n - 97 + 10)
         else if 65 \<le> n \<and> n \<le> 70 then Some (n - 65 + 10)
         else None)"

fun QueryUnescape :: "string \<Rightarrow> string option" where
  "QueryUnescape [] = Some []"
| "QueryUnescape (c # s) =
     (if c = CHR ''%'' then
        (case s of
           a # b # r \<Rightarrow>
             (case (unhex a, unhex b) of
                (Some x, Some y) \<Rightarrow>
                  map_option ((#) (char_of (16 * x + y))) (QueryUnescape r)
              | _ \<Rightarrow> None)
         | _ \<Rightarrow> None)
      else if c = CHR ''+'' then map_option ((#) CHR '' '') (QueryUnescape s)
      else map_option ((#) c) (QueryUnescape s))"

section \<open>A mock server\<close>

text \<open>
  A transport that answers every request with one fixed status and body, and a decoder
  that knows a handful of bodies; an empty body is the decoder's \<open>EOF\<close>.
\<close>

definition zero_board :: board where
  "zero_board =
     \<lparr>board_client = None, board_ID = [], DescData = JNull, Closed = False,
      IDOrganization = JNull, Pinned = False, ShortURL = [], Desc = [], BoardName = [],
      board_URL = [], Prefs = [], LabelNames = [], BoardLists = None\<rparr>"

definition mock_json_board :: "string \<Rightarrow> error + board" where
  \<open>mock_json_board data =
     (if data = ''{"id":"B1","name":"Roadmap"}'' then
        Inr (zero_board\<lparr>board_ID := ''B1'', BoardName := ''Roadmap''\<rparr>)
      else if data = ''{"id":"B1","name":"Roadmap","lists":[]}'' then
        Inr (zero_board\<lparr>board_ID := ''B1'', BoardName := ''Roadmap'', BoardLists := Some []\<rparr>)
      else if data = ''{"id":"B1","name":"Roadmap","lists":[{"id":"L1","name":"Todo"}]}'' then
        Inr (zero_board\<lparr>board_ID := ''B1'', BoardName := ''Roadmap'',
               BoardLists := Some [Some \<lparr>list_client = None, list_ID = ''L1'',
                                           ListName = ''Todo''\<rparr>]\<rparr>)
      else if data = [] then Inl (json_Error ''EOF'')
      else Inl (json_Error ''invalid character''))\<close>

definition mock_json_list :: "string \<Rightarrow> error + (string option \<times> string option)" where
  \<open>mock_json_list data =
     (if data = ''{"id":"L2","name":"Doing"}'' then Inr (Some ''L2'', Some ''Doing'')
      else if data = ''{}'' then Inr (None, None)
      else if data = [] then Inl (json_Error ''EOF'')
      else Inl (json_Error ''invalid character''))\<close>

definition mock_server :: "int \<Rightarrow> string \<Rightarrow> string \<Rightarrow> env" where
  "mock_server code status data =
     \<lparr>url_Parse = (\<lambda>url. None),
      RoundTrip = (\<lambda>req. Inr (code, status, data)),
      json_board = mock_json_board,
      json_list = mock_json_list\<rparr>"

definition w0 :: world where
  "w0 = \<lparr>sent = [], bodies = []\<rparr>"

definition todo_list :: list_t where
  "todo_list = \<lparr>list_client = Some (NewClient ''K'' ''T''), list_ID = ''L1'', ListName = ''Todo''\<rparr>"

section \<open>Facts about the transport\<close>

lemma NewRequest_ok:
  "url_Parse E url = None \<Longrightarrow> http_NewRequest E m url = Inr \<lparr>Method = m, URL = url\<rparr>"
  by (simp add: http_NewRequest_def)

lemma Do_answer:
  "RoundTrip E req = Inr (code, status, data) \<Longrightarrow>
   http_Do E req w =
     (Inr \<lparr>StatusCode = code, Status = status, Body = length (bodies w), BodyData = data\<rparr>,
      w\<lparr>sent := sent w @ [req], bodies := bodies w @ [True]\<rparr>)"
  by (simp add: http_Do_def Let_def)


lemmas mock_defs =
  mock_server_def mock_json_board_def mock_json_list_def zero_board_def w0_def todo_list_def
  NewClient_def BoardService_def ListService_def

lemmas op_defs =
  http_NewRequest_def http_Do_def Body_Close_def Decode_board_def Decode_list_def
  errors_New_def baseURL_def Let_def

lemmas url_defs =
  GetBoard_restURL_def Lists_restURL_def Rename_restURL_def Close_restURL_def
  Create_restURL_def shouldEscape_def unreserved_def upperhex_def

section \<open>Facts about the escaping\<close>

lemma upperhex_unreserved: "n < 16 \<Longrightarrow> upperhex ! n \<in> set unreserved"
proof -
  assume "n < 16"
  then have "n \<in> {0,1,2,3,4,5,6,7,8,9,10,11,12,13,14,15}" by simp presburger
  then show ?thesis
    by (auto simp add: upperhex_def unreserved_def)
qed

lemma QueryEscape_chars:
  "set (QueryEscape s) \<subseteq> set unreserved \<union> {CHR ''+'', CHR ''%''}"
proof (induction s)
  case Nil
  then show ?case by simp
next
  case (Cons c s)
  have "(of_char c :: nat) div 16 < 16"
    using nat_of_char_less_256 [of c] by arith
  then have hi: "upperhex ! (of_char c div 16) \<in> set unreserved"
    by (rule upperhex_unreserved)
  have lo: "upperhex ! (of_char c mod 16) \<in> set unreserved"
    by (rule upperhex_unreserved) simp
  show ?case
    using Cons hi lo by (auto simp add: shouldEscape_def)
qed

lemma QueryEscape_no_delimiter:
  "d \<in> set delimiters \<Longrightarrow> d \<notin> set (QueryEscape s)"
  using QueryEscape_chars [of s] by (auto simp add: delimiters_def unreserved_def)

lemma QueryEscape_count: "d \<in> set delimiters \<Longrightarrow> count_list (QueryEscape s) d = 0"
  using QueryEscape_no_delimiter [of d s] by (simp add: count_list_0_iff)

lemma QueryEscape_append: "QueryEscape (a @ b) = QueryEscape a @ QueryEscape b"
  by (induction a) simp_all

lemma unhex_upperhex: "n < 16 \<Longrightarrow> unhex (upperhex ! n) = Some n"
proof -
  assume "n < 16"
  then have "n \<in> {0,1,2,3,4,5,6,7,8,9,10,11,12,13,14,15}" by simp presburger
  then show ?thesis
    by (auto simp add: upperhex_def unhex_def)
qed

lemma char_of_hex_digits: "char_of (16 * (of_char c div 16) + of_char c mod 16 :: nat) = c"
  by simp

lemma QueryUnescape_QueryEscape: "QueryUnescape (QueryEscape s) = Some s"
proof (induction s)
  case Nil
  then show ?case by simp
next
  case (Cons c s)
  have "(of_char c :: nat) div 16 < 16"
    using nat_of_char_less_256 [of c] by arith
  then have hi: "unhex (upperhex ! (of_char c div 16)) = Some (of_char c div 16)"
    by (rule unhex_upperhex)
  have lo: "unhex (upperhex ! (of_char c mod 16)) = Some (of_char c mod 16)"
    by (rule unhex_upperhex) simp
  have plain: "\<not> shouldEscape c \<Longrightarrow> c \<noteq> CHR ''%'' \<and> c \<noteq> CHR ''+''"
    by (auto simp add: shouldEscape_def unreserved_def)
  show ?case
  proof (cases "shouldEscape c")
    case True
    then show ?thesis
      using Cons hi lo by (simp add: char_of_hex_digits)
  next
    case False
    then show ?thesis
      using Cons plain by simp
  qed
qed

section \<open>Facts about splitting a query\<close>

lemma split_on_not_Nil: "split_on d s \<noteq> []"
  by (induction s) (simp_all split: list.splits)

lemma split_on_prefix:
  "d \<notin> set a \<Longrightarrow> split_on d (a @ s) = (a @ hd (split_on d s)) # tl (split_on d s)"
proof (induction a)
  case Nil
  then show ?case using split_on_not_Nil [of d s] by simp
next
  case (Cons x a)
  then have "x \<noteq> d" and "split_on d (a @ s) = (a @ hd (split_on d s)) # tl (split_on d s)"
    by auto
  then show ?case by simp
qed

lemma split_on_segment: "d \<notin> set a \<Longrightarrow> split_on d (a @ d # s) = a # split_on d s"
  by (simp add: split_on_prefix)

lemma split_on_single: "d \<notin> set a \<Longrightarrow> split_on d a = [a]"
  using split_on_prefix [of d a "[]"] by simp

lemma takeWhile_clean:
  "x \<notin> set a \<Longrightarrow> takeWhile (\<lambda>c. c \<noteq> x) (a @ s) = a @ takeWhile (\<lambda>c. c \<noteq> x) s"
  by (induction a) auto

lemma dropWhile_clean:
  "x \<notin> set a \<Longrightarrow> dropWhile (\<lambda>c. c \<noteq> x) (a @ x # s) = x # s"
  by (induction a) auto

lemma RawQuery_after_question:
  "CHR ''?'' \<notin> set a \<Longrightarrow> CHR ''#'' \<notin> set a \<Longrightarrow>
   RawQuery (a @ CHR ''?'' # q) = takeWhile (\<lambda>c. c \<noteq> CHR ''#'') q"
  by (simp add: RawQuery_def takeWhile_clean dropWhile_clean)

lemma not_in_takeWhile: "x \<notin> set s \<Longrightarrow> x \<notin> set (takeWhile P s)"
  by (meson set_takeWhileD)

lemma has_param_pos:
  assumes k1: "CHR ''&'' \<notin> set (key c)" and k2: "CHR ''#'' \<notin> set (key c)"
    and t1: "CHR ''&'' \<notin> set (token c)"
  shows "has_param ''pos'' (Create_restURL c name boardID pos) \<longleftrightarrow> pos \<noteq> []"
proof -
  define K where "K = ''key='' @ key c"
  define N where "N = ''name='' @ QueryEscape name"
  define B where "B = ''idBoard='' @ QueryEscape boardID"
  have esc: "CHR ''&'' \<notin> set (QueryEscape x)" "CHR ''#'' \<notin> set (QueryEscape x)" for x
    by (rule QueryEscape_no_delimiter, simp add: delimiters_def)+
  have K: "CHR ''&'' \<notin> set K" "CHR ''#'' \<notin> set K"
    using k1 k2 by (simp_all add: K_def)
  have N: "CHR ''&'' \<notin> set N" "CHR ''#'' \<notin> set N"
    using esc by (simp_all add: N_def)
  have B: "CHR ''&'' \<notin> set B" "CHR ''#'' \<notin> set B"
    using esc by (simp_all add: B_def)
  have names: "takeWhile (\<lambda>x. x \<noteq> CHR ''='') K = ''key''"
    "takeWhile (\<lambda>x. x \<noteq> CHR ''='') N = ''name''"
    "takeWhile (\<lambda>x. x \<noteq> CHR ''='') (B @ y) = ''idBoard''"
    "takeWhile (\<lambda>x. x \<noteq> CHR ''='') B = ''idBoard''"
    "K \<noteq> []" "N \<noteq> []" "B \<noteq> []" for y
    by (simp_all add: K_def N_def B_def)
  define A where "A = baseURL @ ''/1/lists''"
  define T where "T = (if pos = [] then [] else ''&pos='' @ pos)
       @ (if token c = [] then [] else ''&token='' @ token c)"
  define R where "R = takeWhile (\<lambda>x. x \<noteq> CHR ''#'') T"
  have A: "CHR ''?'' \<notin> set A" "CHR ''#'' \<notin> set A"
    by (simp_all add: A_def baseURL_def)
  have url: "Create_restURL c name boardID pos = A @ CHR ''?'' # (K @ CHR ''&'' # N @ CHR ''&'' # B @ T)"
    by (simp add: Create_restURL_def Let_def K_def N_def B_def A_def T_def)
  have "RawQuery (Create_restURL c name boardID pos) =
      takeWhile (\<lambda>x. x \<noteq> CHR ''#'') (K @ CHR ''&'' # N @ CHR ''&'' # B @ T)"
    unfolding url using A by (rule RawQuery_after_question)
  also have "\<dots> = K @ CHR ''&'' # N @ CHR ''&'' # B @ R"
    using K N B unfolding R_def
    by (simp add: takeWhile_clean)
  finally have q: "RawQuery (Create_restURL c name boardID pos) =
      K @ CHR ''&'' # N @ CHR ''&'' # B @ R" .
  have s: "split_on CHR ''&'' (RawQuery (Create_restURL c name boardID pos)) =
      K # N # (B @ hd (split_on CHR ''&'' R)) # tl (split_on CHR ''&'' R)"
    unfolding q using K N B
    by (simp add: split_on_prefix)
  show ?thesis
  proof (cases "pos = []")
    case True
    show ?thesis
    proof (cases "token c = []")
      case True
      with \<open>pos = []\<close> have "R = []" by (simp add: R_def T_def)
      with s \<open>pos = []\<close> show ?thesis
        by (simp add: has_param_def query_names_def names)
    next
      case False
      with \<open>pos = []\<close> have "R = CHR ''&'' # (''token='' @ takeWhile (\<lambda>x. x \<noteq> CHR ''#'') (token c))"
        by (simp add: R_def T_def)
      moreover have "CHR ''&'' \<notin> set (''token='' @ takeWhile (\<lambda>x. x \<noteq> CHR ''#'') (token c))"
        using t1 not_in_takeWhile [of "CHR ''&''" "token c"] by simp
      ultimately have "split_on CHR ''&'' R = [[], ''token='' @ takeWhile (\<lambda>x. x \<noteq> CHR ''#'') (token c)]"
        using split_on_single by simp
      with s \<open>pos = []\<close> show ?thesis
        by (simp add: has_param_def query_names_def names)
    qed
  next
    case False
    define X where "X = takeWhile (\<lambda>x. x \<noteq> CHR ''#'') (pos @ (if token c = [] then [] else ''&token='' @ token c))"
    from False have "R = CHR ''&'' # (''pos='' @ X)"
      by (simp add: R_def T_def X_def)
    then have "split_on CHR ''&'' R = [] # (''pos='' @ hd (split_on CHR ''&'' X)) # tl (split_on CHR ''&'' X)"
      using split_on_prefix [of "CHR ''&''" "''pos=''" X] by simp
    with s False show ?thesis
      by (simp add: has_param_def query_names_def names)
  qed
qed

lemma split_on_append_delim: "split_on d (pre @ d # t) = split_on d pre @ split_on d t"
proof (induction pre)
  case Nil
  then show ?case by simp
next
  case (Cons x pre)
  obtain y ys where "split_on d pre = y # ys"
    using split_on_not_Nil [of d pre] by (cases "split_on d pre") auto
  with Cons show ?case by simp
qed

lemma split_on_has_segment:
  assumes "d \<notin> set seg" and "rest = [] \<or> (\<exists>r. rest = d # r)"
  shows "seg \<in> set (split_on d (pre @ d # seg @ rest))"
proof -
  have "seg \<in> set (split_on d (seg @ rest))"
  proof (cases "rest = []")
    case True
    then show ?thesis using assms(1) by (simp add: split_on_single)
  next
    case False
    with assms(2) obtain r where "rest = d # r" by blast
    then show ?thesis
      using assms(1) by (simp add: split_on_append_delim split_on_single)
  qed
  then show ?thesis
    by (simp add: split_on_append_delim)
qed

lemma RawQuery_ends:
  assumes "CHR ''#'' \<notin> set A"
  shows "\<exists>Y. RawQuery (A @ CHR ''?'' # Q) = Y @ takeWhile (\<lambda>c. c \<noteq> CHR ''#'') Q"
proof (cases "CHR ''?'' \<in> set A")
  case False
  then show ?thesis
    using assms RawQuery_after_question [of A Q] by simp
next
  case True
  then obtain A1 A2 where A: "A = A1 @ CHR ''?'' # A2" and n: "CHR ''?'' \<notin> set A1"
    by (meson split_list_first)
  from assms A have h: "CHR ''#'' \<notin> set A1" "CHR ''#'' \<notin> set A2" by simp_all
  have "RawQuery (A1 @ CHR ''?'' # (A2 @ CHR ''?'' # Q)) =
      takeWhile (\<lambda>c. c \<noteq> CHR ''#'') (A2 @ CHR ''?'' # Q)"
    using n h(1) by (rule RawQuery_after_question)
  also have "\<dots> = (A2 @ [CHR ''?'']) @ takeWhile (\<lambda>c. c \<noteq> CHR ''#'') Q"
    using h(2) by (simp add: takeWhile_clean)
  finally show ?thesis
    unfolding A by (metis append.assoc append_Cons)
qed

lemma param_of_segment:
  assumes "CHR ''='' \<notin> set n" and "CHR ''&'' \<notin> set n" and "CHR ''&'' \<notin> set v"
    and "rest = [] \<or> (\<exists>r. rest = CHR ''&'' # r)"
    and "RawQuery url = pre @ CHR ''&'' # (n @ CHR ''='' # v) @ rest"
  shows "(n, v) \<in> set (query_params url)"
proof -
  let ?seg = "n @ CHR ''='' # v"
  have "CHR ''&'' \<notin> set ?seg" using assms(2,3) by simp
  then have "?seg \<in> set (split_on CHR ''&'' (RawQuery url))"
    unfolding assms(5) using assms(4) by (rule split_on_has_segment)
  moreover have "?seg \<noteq> []" by simp
  moreover have "takeWhile (\<lambda>c. c \<noteq> CHR ''='') ?seg = n"
    using assms(1) by (simp add: takeWhile_clean)
  moreover have "drop 1 (dropWhile (\<lambda>c. c \<noteq> CHR ''='') ?seg) = v"
    using assms(1) by (simp add: dropWhile_clean)
  ultimately show ?thesis
    unfolding query_params_def by (force simp add: image_iff)
qed

lemma token_part_cut:
  "takeWhile (\<lambda>x. x \<noteq> CHR ''#'') (if t = [] then [] else ''&token='' @ t) = [] \<or>
   (\<exists>r. takeWhile (\<lambda>x. x \<noteq> CHR ''#'') (if t = [] then [] else ''&token='' @ t) = CHR ''&'' # r)"
  by simp

lemma Rename_query_value:
  assumes "CHR ''#'' \<notin> set (list_ID l)" and "CHR ''#'' \<notin> set (key c)"
  shows "(''value'', QueryEscape newName) \<in> set (query_params (Rename_restURL c l newName))"
proof -
  define A where "A = baseURL @ ''/1/lists/'' @ list_ID l @ ''/name''"
  define K where "K = ''key='' @ key c"
  define V where "V = QueryEscape newName"
  define T where "T = (if token c = [] then [] else ''&token='' @ token c)"
  define R where "R = takeWhile (\<lambda>x. x \<noteq> CHR ''#'') T"
  have V: "CHR ''&'' \<notin> set V" "CHR ''#'' \<notin> set V"
    unfolding V_def by (rule QueryEscape_no_delimiter, simp add: delimiters_def)+
  have A: "CHR ''#'' \<notin> set A"
    using assms(1) by (simp add: A_def baseURL_def)
  have K: "CHR ''#'' \<notin> set K"
    using assms(2) by (simp add: K_def)
  have url: "Rename_restURL c l newName = A @ CHR ''?'' # (K @ CHR ''&'' # (''value'' @ CHR ''='' # V) @ T)"
    by (simp add: Rename_restURL_def Let_def A_def K_def V_def T_def)
  obtain Y where "RawQuery (Rename_restURL c l newName) =
      Y @ takeWhile (\<lambda>x. x \<noteq> CHR ''#'') (K @ CHR ''&'' # (''value'' @ CHR ''='' # V) @ T)"
    unfolding url using RawQuery_ends [OF A] by blast
  also have "takeWhile (\<lambda>x. x \<noteq> CHR ''#'') (K @ CHR ''&'' # (''value'' @ CHR ''='' # V) @ T) =
      K @ CHR ''&'' # (''value'' @ CHR ''='' # V) @ R"
    using K V unfolding R_def by (simp add: takeWhile_clean)
  finally have q: "RawQuery (Rename_restURL c l newName) =
      (Y @ K) @ CHR ''&'' # (''value'' @ CHR ''='' # V) @ R"
    by simp
  have r: "R = [] \<or> (\<exists>r. R = CHR ''&'' # r)"
    unfolding R_def T_def by (rule token_part_cut)
  have "(''value'', V) \<in> set (query_params (Rename_restURL c l newName))"
    by (rule param_of_segment [OF _ _ V(1) r q]) simp_all
  then show ?thesis by (simp add: V_def)
qed

lemma Create_query_name:
  assumes "CHR ''#'' \<notin> set (key c)"
  shows "(''name'', QueryEscape name) \<in> set (query_params (Create_restURL c name boardID pos))
     \<and> (''idBoard'', QueryEscape boardID) \<in> set (query_params (Create_restURL c name boardID pos))"
proof -
  define A where "A = baseURL @ ''/1/lists''"
  define K where "K = ''key='' @ key c"
  define N where "N = QueryEscape name"
  define B where "B = QueryEscape boardID"
  define T where "T = (if pos = [] then [] else ''&pos='' @ pos)
       @ (if token c = [] then [] else ''&token='' @ token c)"
  define R where "R = takeWhile (\<lambda>x. x \<noteq> CHR ''#'') T"
  have esc: "CHR ''&'' \<notin> set (QueryEscape x)" "CHR ''#'' \<notin> set (QueryEscape x)" for x
    by (rule QueryEscape_no_delimiter, simp add: delimiters_def)+
  have N: "CHR ''&'' \<notin> set N" "CHR ''#'' \<notin> set N" using esc by (simp_all add: N_def)
  have B: "CHR ''&'' \<notin> set B" "CHR ''#'' \<notin> set B" using esc by (simp_all add: B_def)
  have A: "CHR ''#'' \<notin> set A" by (simp add: A_def baseURL_def)
  have K: "CHR ''#'' \<notin> set K" using assms by (simp add: K_def)
  have url: "Create_restURL c name boardID pos =
      A @ CHR ''?'' # (K @ CHR ''&'' # (''name'' @ CHR ''='' # N) @ CHR ''&'' #
        (''idBoard'' @ CHR ''='' # B) @ T)"
    by (simp add: Create_restURL_def Let_def A_def K_def N_def B_def T_def)
  obtain Y where "RawQuery (Create_restURL c name boardID pos) =
      Y @ takeWhile (\<lambda>x. x \<noteq> CHR ''#'') (K @ CHR ''&'' # (''name'' @ CHR ''='' # N) @ CHR ''&'' #
        (''idBoard'' @ CHR ''='' # B) @ T)"
    unfolding url using RawQuery_ends [OF A] by blast
  also have "takeWhile (\<lambda>x. x \<noteq> CHR ''#'') (K @ CHR ''&'' # (''name'' @ CHR ''='' # N) @ CHR ''&'' #
        (''idBoard'' @ CHR ''='' # B) @ T) =
      K @ CHR ''&'' # (''name'' @ CHR ''='' # N) @ CHR ''&'' # (''idBoard'' @ CHR ''='' # B) @ R"
    using K N B unfolding R_def by (simp add: takeWhile_clean)
  finally have q: "RawQuery (Create_restURL c name boardID pos) =
      Y @ K @ CHR ''&'' # (''name'' @ CHR ''='' # N) @ CHR ''&'' # (''idBoard'' @ CHR ''='' # B) @ R" .
  have r: "R = [] \<or> (\<exists>r. R = CHR ''&'' # r)"
    unfolding R_def T_def by (cases "pos = []") simp_all
  have q1: "RawQuery (Create_restURL c name boardID pos) =
      (Y @ K) @ CHR ''&'' # (''name'' @ CHR ''='' # N) @ (CHR ''&'' # (''idBoard'' @ CHR ''='' # B) @ R)"
    unfolding q by simp
  have q2: "RawQuery (Create_restURL c name boardID pos) =
      (Y @ K @ CHR ''&'' # (''name'' @ CHR ''='' # N)) @ CHR ''&'' # (''idBoard'' @ CHR ''='' # B) @ R"
    unfolding q by simp
  have "(''name'', N) \<in> set (query_params (Create_restURL c name boardID pos))"
    by (rule param_of_segment [OF _ _ N(1) _ q1]) simp_all
  moreover have "(''idBoard'', B) \<in> set (query_params (Create_restURL c name boardID pos))"
    by (rule param_of_segment [OF _ _ B(1) r q2]) simp_all
  ultimately show ?thesis by (simp add: N_def B_def)
qed

section \<open>Facts about the operations\<close>

lemma Lists_loop_Panic: "None \<in> set xs \<Longrightarrow> Lists_loop c i xs ls = Panic"
  by (induction c i xs ls rule: Lists_loop.induct) auto

lemma Lists_loop_Return:
  "None \<notin> set xs \<Longrightarrow> i + length xs \<le> length ls \<Longrightarrow>
   Lists_loop c i xs ls =
     Return (take i ls @ map (map_option (\<lambda>l. l\<lparr>list_client := c\<rparr>)) xs
               @ drop (i + length xs) ls)"
proof (induction c i xs ls rule: Lists_loop.induct)
  case (1 c i ls)
  then show ?case by simp
next
  case (2 c i rest ls)
  then show ?case by simp
next
  case (3 c i l rest ls)
  then have "i < length ls" by simp
  then have "take (Suc i) (ls[i := Some (l\<lparr>list_client := c\<rparr>)])
      = take i ls @ [Some (l\<lparr>list_client := c\<rparr>)]"
    by (simp add: take_Suc_conv_app_nth)
  with 3 show ?case by simp
qed

lemma Lists_loop_fresh:
  "length xs = n \<Longrightarrow>
   Lists_loop c 0 xs (replicate n None) =
     (if None \<in> set xs then Panic
      else Return (map (map_option (\<lambda>l. l\<lparr>list_client := c\<rparr>)) xs))"
  using Lists_loop_Return [of xs 0 "replicate n None" c]
  by (auto simp add: Lists_loop_Panic)

lemma Body_Close_fresh:
  "Body_Close \<lparr>StatusCode = code, Status = status, Body = length (bodies w), BodyData = data\<rparr>
     (w\<lparr>sent := s, bodies := bodies w @ [True]\<rparr>) = w\<lparr>sent := s, bodies := bodies w @ [False]\<rparr>"
  by (simp add: Body_Close_def)

lemma Lists_answer:
  assumes "board_client b = Some c"
    and "url_Parse E (Lists_restURL c b) = None"
    and "RoundTrip E \<lparr>Method = ''GET'', URL = Lists_restURL c b\<rparr> = Inr (code, status, data)"
    and "json_board E data = Inr d"
  shows "Lists E b w =
     ((if None \<in> set (elems (BoardLists d)) then Panic
       else Return (Some (map (map_option (\<lambda>l. l\<lparr>list_client := Some c\<rparr>))
                             (elems (BoardLists d))), None)),
      w\<lparr>sent := sent w @ [\<lparr>Method = ''GET'', URL = Lists_restURL c b\<rparr>],
        bodies := bodies w @ [False]\<rparr>)"
proof -
  have dec: "Decode_board E data = Inr (d\<lparr>board_client := None,
                 BoardLists :=
                   map_option (map (map_option (\<lambda>l. l\<lparr>list_client := None\<rparr>)))
                     (BoardLists d)\<rparr>)"
    using assms(4) by (simp add: Decode_board_def)
  have el: "elems (map_option (map (map_option (\<lambda>l. l\<lparr>list_client := None\<rparr>))) (BoardLists d))
      = map (map_option (\<lambda>l. l\<lparr>list_client := None\<rparr>)) (elems (BoardLists d))"
    by (simp add: elems_def split: option.splits)
  show ?thesis
    using assms(1)
    by (simp add: Lists_def NewRequest_ok [OF assms(2)] Do_answer [OF assms(3)] dec el
        Body_Close_fresh Lists_loop_fresh Let_def o_def option.map_comp image_iff)
qed

lemma GetBoard_run:
  "bs_client b = Some c \<Longrightarrow>
   GetBoard E b id' w =
     (case url_Parse E (GetBoard_restURL c id') of
        Some err \<Rightarrow> (Return (None, Some err), w)
      | None \<Rightarrow>
          (case RoundTrip E \<lparr>Method = ''GET'', URL = GetBoard_restURL c id'\<rparr> of
             Inl err \<Rightarrow>
               (Return (None, Some err),
                w\<lparr>sent := sent w @ [\<lparr>Method = ''GET'', URL = GetBoard_restURL c id'\<rparr>]\<rparr>)
           | Inr (code, status, data) \<Rightarrow>
               ((case Decode_board E data of
                   Inl err \<Rightarrow> Return (None, Some err)
                 | Inr d \<Rightarrow> Return (Some (d\<lparr>board_client := Some c\<rparr>), None)),
                w\<lparr>sent := sent w @ [\<lparr>Method = ''GET'', URL = GetBoard_restURL c id'\<rparr>],
                  bodies := bodies w @ [False]\<rparr>)))"
  by (simp add: GetBoard_def http_NewRequest_def http_Do_def Body_Close_def Let_def
      split: option.split sum.split prod.split)

lemma Lists_run:
  "board_client b = Some c \<Longrightarrow>
   Lists E b w =
     (case url_Parse E (Lists_restURL c b) of
        Some err \<Rightarrow> (Return (None, Some err), w)
      | None \<Rightarrow>
          (case RoundTrip E \<lparr>Method = ''GET'', URL = Lists_restURL c b\<rparr> of
             Inl err \<Rightarrow>
               (Return (None, Some err),
                w\<lparr>sent := sent w @ [\<lparr>Method = ''GET'', URL = Lists_restURL c b\<rparr>]\<rparr>)
           | Inr (code, status, data) \<Rightarrow>
               ((case Decode_board E data of
                   Inl err \<Rightarrow> Return (None, Some err)
                 | Inr d \<Rightarrow>
                     (case Lists_loop (Some c) 0 (elems (BoardLists d))
                             (replicate (length (elems (BoardLists d))) None) of
                        Panic \<Rightarrow> Panic
                      | Return ls' \<Rightarrow> Return (Some ls', None))),
                w\<lparr>sent := sent w @ [\<lparr>Method = ''GET'', URL = Lists_restURL c b\<rparr>],
                  bodies := bodies w @ [False]\<rparr>)))"
  by (simp add: Lists_def http_NewRequest_def http_Do_def Body_Close_def Let_def
      split: option.split sum.split prod.split outcome.split)

lemma Rename_run:
  "list_client l = Some c \<Longrightarrow>
   Rename E l newName w =
     (case url_Parse E (Rename_restURL c l newName) of
        Some err \<Rightarrow> (Return (Some err), w)
      | None \<Rightarrow>
          (case RoundTrip E \<lparr>Method = ''PUT'', URL = Rename_restURL c l newName\<rparr> of
             Inl err \<Rightarrow>
               (Return (Some err),
                w\<lparr>sent := sent w @ [\<lparr>Method = ''PUT'', URL = Rename_restURL c l newName\<rparr>]\<rparr>)
           | Inr (code, status, data) \<Rightarrow>
               (Return (if code < 200 \<or> code > 299
                        then Some (errors_New (''bad response code: '' @ status)) else None),
                w\<lparr>sent := sent w @ [\<lparr>Method = ''PUT'', URL = Rename_restURL c l newName\<rparr>],
                  bodies := bodies w @ [True]\<rparr>)))"
  by (simp add: Rename_def http_NewRequest_def http_Do_def Let_def
      split: option.split sum.split prod.split)

lemma Close_run:
  "list_client l = Some c \<Longrightarrow>
   Close E l w =
     (case url_Parse E (Close_restURL c l) of
        Some err \<Rightarrow> (Return (Some err), w)
      | None \<Rightarrow>
          (case RoundTrip E \<lparr>Method = ''PUT'', URL = Close_restURL c l\<rparr> of
             Inl err \<Rightarrow>
               (Return (Some err),
                w\<lparr>sent := sent w @ [\<lparr>Method = ''PUT'', URL = Close_restURL c l\<rparr>]\<rparr>)
           | Inr (code, status, data) \<Rightarrow>
               (Return (if code < 200 \<or> code > 299
                        then Some (errors_New (''bad response code: '' @ status)) else None),
                w\<lparr>sent := sent w @ [\<lparr>Method = ''PUT'', URL = Close_restURL c l\<rparr>],
                  bodies := bodies w @ [True]\<rparr>)))"
  by (simp add: Close_def http_NewRequest_def http_Do_def Let_def
      split: option.split sum.split prod.split)

lemma Create_run:
  "ls_client s = Some c \<Longrightarrow>
   Create E s name boardID pos w =
     (case url_Parse E (Create_restURL c name boardID pos) of
        Some err \<Rightarrow> (Return (None, Some err), w)
      | None \<Rightarrow>
          (case RoundTrip E \<lparr>Method = ''POST'', URL = Create_restURL c name boardID pos\<rparr> of
             Inl err \<Rightarrow>
               (Return (None, Some err),
                w\<lparr>sent := sent w @
                    [\<lparr>Method = ''POST'', URL = Create_restURL c name boardID pos\<rparr>]\<rparr>)
           | Inr (code, status, data) \<Rightarrow>
               (if code < 200 \<or> code > 299
                then (Return (None, Some (errors_New (''bad response code: '' @ status))),
                      w\<lparr>sent := sent w @
                          [\<lparr>Method = ''POST'', URL = Create_restURL c name boardID pos\<rparr>],
                        bodies := bodies w @ [True]\<rparr>)
                else
                  ((case Decode_list E data \<lparr>list_client = Some c, list_ID = [], ListName = []\<rparr> of
                      Inl err \<Rightarrow> Return (None, Some err)
                    | Inr ll \<Rightarrow> Return (Some ll, None)),
                   w\<lparr>sent := sent w @
                       [\<lparr>Method = ''POST'', URL = Create_restURL c name boardID pos\<rparr>],
                     bodies := bodies w @ [False]\<rparr>))))"
  by (simp add: Create_def http_NewRequest_def http_Do_def Body_Close_def Let_def
      split: option.split sum.split prod.split)

lemma GetBoard_client:
  assumes "GetBoard E (BoardService c) id' w = (Return (Some b, e), w')"
  shows "board_client b = Some c"
  using assms GetBoard_run [of "BoardService c" c E id' w]
  by (auto simp add: BoardService_def split: option.splits sum.splits prod.splits)

lemma Create_client:
  assumes "Create E (ListService c) name boardID pos w = (Return (Some l, e), w')"
  shows "list_client l = Some c"
  using assms Create_run [of "ListService c" c E name boardID pos w]
  by (auto simp add: ListService_def Decode_list_def
      split: option.splits sum.splits prod.splits if_splits)

lemma Lists_client:
  assumes "board_client b = Some c" and "Lists E b w = (Return (Some ls, e), w')"
  shows "\<forall>x\<in>set ls. \<exists>l. x = Some l \<and> list_client l = Some c"
proof -
  from assms Lists_run [of b c E w] obtain xs where
      "Lists_loop (Some c) 0 xs (replicate (length xs) None) = Return ls"
    by (auto split: option.splits sum.splits prod.splits outcome.splits)
  then have nn: "None \<notin> set xs"
    and ls: "ls = map (map_option (\<lambda>l. l\<lparr>list_client := Some c\<rparr>)) xs"
    by (auto simp add: Lists_loop_fresh split: if_splits)
  have "\<exists>l. x = Some l \<and> list_client l = Some c" if "x \<in> set ls" for x
  proof -
    from that ls obtain y where y: "y \<in> set xs" "x = map_option (\<lambda>l. l\<lparr>list_client := Some c\<rparr>) y"
      by auto
    with nn obtain l0 where "y = Some l0"
      by (cases y) auto
    with y show ?thesis by simp
  qed
  then show ?thesis by blast
qed

lemma Lists_sent:
  "board_client b = Some c \<Longrightarrow>
   sent (snd (Lists E b w)) = sent w \<or>
   sent (snd (Lists E b w)) = sent w @ [\<lparr>Method = ''GET'', URL = Lists_restURL c b\<rparr>]"
  by (simp add: Lists_run split: option.split sum.split prod.split)

lemma Rename_sent:
  "list_client l = Some c \<Longrightarrow>
   sent (snd (Rename E l newName w)) = sent w \<or>
   sent (snd (Rename E l newName w)) =
     sent w @ [\<lparr>Method = ''PUT'', URL = Rename_restURL c l newName\<rparr>]"
  by (simp add: Rename_run split: option.split sum.split prod.split)

lemma Close_sent:
  "list_client l = Some c \<Longrightarrow>
   sent (snd (Close E l w)) = sent w \<or>
   sent (snd (Close E l w)) = sent w @ [\<lparr>Method = ''PUT'', URL = Close_restURL c l\<rparr>]"
  by (simp add: Close_run split: option.split sum.split prod.split)

lemma Rename_one_request:
  "list_client l = Some c \<Longrightarrow> url_Parse E (Rename_restURL c l newName) = None \<Longrightarrow>
   sent (snd (Rename E l newName w)) =
     sent w @ [\<lparr>Method = ''PUT'', URL = Rename_restURL c l newName\<rparr>]"
  by (simp add: Rename_run split: sum.split prod.split)

lemma Create_one_request:
  "ls_client s = Some c \<Longrightarrow> url_Parse E (Create_restURL c name boardID pos) = None \<Longrightarrow>
   sent (snd (Create E s name boardID pos w)) =
     sent w @ [\<lparr>Method = ''POST'', URL = Create_restURL c name boardID pos\<rparr>]"
  by (simp add: Create_run split: sum.split prod.split)

lemma errors_New_Error: "Error (errors_New s) = s"
  by (simp add: errors_New_def)

lemma GetBoard_restURL_eq:
  "GetBoard_restURL c id' =
     (baseURL @ ''/1/boards/'' @ id') @ CHR ''?'' #
       (''key='' @ key c @ (if token c = [] then [] else ''&token='' @ token c))"
  by (simp add: GetBoard_restURL_def Let_def)

lemma GetBoard_RawQuery:
  assumes "CHR ''?'' \<notin> set id'" and "CHR ''#'' \<notin> set id'"
    and "CHR ''#'' \<notin> set (key c)" and "CHR ''#'' \<notin> set (token c)"
  shows "RawQuery (GetBoard_restURL c id') =
           ''key='' @ key c @ (if token c = [] then [] else ''&token='' @ token c)"
proof -
  define A where "A = baseURL @ ''/1/boards/'' @ id'"
  define Q where "Q = ''key='' @ key c @ (if token c = [] then [] else ''&token='' @ token c)"
  have A: "CHR ''?'' \<notin> set A" "CHR ''#'' \<notin> set A"
    using assms by (simp_all add: A_def baseURL_def)
  have Q: "CHR ''#'' \<notin> set Q"
    using assms by (simp add: Q_def)
  have "RawQuery (A @ CHR ''?'' # Q) = takeWhile (\<lambda>x. x \<noteq> CHR ''#'') Q"
    using A by (rule RawQuery_after_question)
  also have "\<dots> = Q"
    using Q by (auto simp add: takeWhile_eq_all_conv)
  finally show ?thesis
    unfolding GetBoard_restURL_eq A_def Q_def by simp
qed

lemma GetBoard_count:
  "count_list (GetBoard_restURL c id') d =
     count_list (GetBoard_restURL \<lparr>key = [], token = []\<rparr> []) d
       + count_list id' d + count_list (key c) d
       + count_list (if token c = [] then [] else ''&token='' @ token c) d"
proof -
  define P where "P = baseURL @ ''/1/boards/''"
  define Q where "Q = ''?key=''"
  define T where "T = (if token c = [] then [] else ''&token='' @ token c)"
  have 1: "GetBoard_restURL c id' = P @ id' @ Q @ key c @ T"
    by (simp add: GetBoard_restURL_def Let_def P_def Q_def T_def)
  have 2: "GetBoard_restURL \<lparr>key = [], token = []\<rparr> [] = P @ Q"
    by (simp add: GetBoard_restURL_def Let_def P_def Q_def)
  show ?thesis
    unfolding 1 2 T_def [symmetric] by simp
qed

lemma Rename_count:
  assumes "d \<in> set delimiters"
  shows "count_list (Rename_restURL c l newName) d =
     count_list (Rename_restURL \<lparr>key = [], token = []\<rparr> (l\<lparr>list_ID := []\<rparr>) []) d
       + count_list (list_ID l) d + count_list (key c) d
       + count_list (if token c = [] then [] else ''&token='' @ token c) d"
proof -
  define P where "P = baseURL @ ''/1/lists/''"
  define Q where "Q = ''/name?key=''"
  define V where "V = ''&value=''"
  define T where "T = (if token c = [] then [] else ''&token='' @ token c)"
  have 1: "Rename_restURL c l newName = P @ list_ID l @ Q @ key c @ V @ QueryEscape newName @ T"
    by (simp add: Rename_restURL_def Let_def P_def Q_def V_def T_def)
  have 2: "Rename_restURL \<lparr>key = [], token = []\<rparr> (l\<lparr>list_ID := []\<rparr>) [] = P @ Q @ V"
    by (simp add: Rename_restURL_def Let_def P_def Q_def V_def)
  show ?thesis
    unfolding 1 2 T_def [symmetric] using assms by (simp add: QueryEscape_count)
qed

lemma Create_count:
  assumes "d \<in> set delimiters"
  shows "count_list (Create_restURL c name boardID pos) d =
     count_list (Create_restURL \<lparr>key = [], token = []\<rparr> [] [] []) d
       + count_list (key c) d
       + count_list (if pos = [] then [] else ''&pos='' @ pos) d
       + count_list (if token c = [] then [] else ''&token='' @ token c) d"
proof -
  define P where "P = baseURL @ ''/1/lists?key=''"
  define Q where "Q = ''&name=''"
  define V where "V = ''&idBoard=''"
  define S where "S = (if pos = [] then [] else ''&pos='' @ pos)"
  define T where "T = (if token c = [] then [] else ''&token='' @ token c)"
  have 1: "Create_restURL c name boardID pos =
      P @ key c @ Q @ QueryEscape name @ V @ QueryEscape boardID @ S @ T"
    by (simp add: Create_restURL_def Let_def P_def Q_def V_def S_def T_def)
  have 2: "Create_restURL \<lparr>key = [], token = []\<rparr> [] [] [] = P @ Q @ V"
    by (simp add: Create_restURL_def Let_def P_def Q_def V_def)
  show ?thesis
    unfolding 1 2 S_def [symmetric] T_def [symmetric] using assms
    by (simp add: QueryEscape_count)
qed

section \<open>The claims\<close>

subsection \<open>Rename and Close on the wire\<close>

text \<open>
  Claim C1. \<open>Close\<close> on the list \<open>L1\<close> of a client with key \<open>K\<close> and token \<open>T\<close>, against a
  server that answers 200: the one request sent is a PUT that sets the field \<open>name\<close> to
  \<open>true\<close>, not the field \<open>closed\<close>.
\<close>

theorem Close_puts_name_field:
  "Close (mock_server 200 ''200 OK'' []) todo_list w0 =
     (Return None,
      \<lparr>sent = [\<lparr>Method = ''PUT'',
                 URL = ''https://api.trello.com/1/lists/L1/name?key=K&value=true&token=T''\<rparr>],
       bodies = [True]\<rparr>)"
  by (simp add: Close_def Close_restURL_def mock_defs op_defs)


subsection \<open>Response bodies\<close>

text \<open>
  Claim C2. After \<open>Rename\<close> and \<open>Close\<close> have returned from a 200 response, and after
  \<open>Create\<close> has returned from a 404 response, the body of the response is still open;
  \<open>GetBoard\<close> against the same kind of server has closed it.
\<close>

theorem body_left_open:
  "Rename (mock_server 200 ''200 OK'' []) todo_list ''Done'' w0 =
     (Return None,
      \<lparr>sent = [\<lparr>Method = ''PUT'',
                 URL = ''https://api.trello.com/1/lists/L1/name?key=K&value=Done&token=T''\<rparr>],
       bodies = [True]\<rparr>)
   \<and> bodies (snd (Close (mock_server 200 ''200 OK'' []) todo_list w0)) = [True]
   \<and> Create (mock_server 404 ''404 Not Found'' []) (ListService (NewClient ''K'' ''T''))
         ''Doing'' ''B1'' [] w0 =
       (Return (None, Some (errorString ''bad response code: 404 Not Found'')),
        \<lparr>sent = [\<lparr>Method = ''POST'',
                   URL = ''https://api.trello.com/1/lists?key=K&name=Doing&idBoard=B1&token=T''\<rparr>],
         bodies = [True]\<rparr>)
   \<and> bodies (snd (GetBoard (mock_server 200 ''200 OK'' []) (BoardService (NewClient ''K'' ''T''))
         ''B1'' w0)) = [False]"
  by (simp add: Rename_def Rename_restURL_def Close_def Close_restURL_def Create_def
      Create_restURL_def GetBoard_def GetBoard_restURL_def mock_defs op_defs
      shouldEscape_def unreserved_def)

subsection \<open>Status codes\<close>

text \<open>
  Claim C3, amended. When the request is built and the transport answers with a status
  code, a status text and a body, exactly one request has been sent. \<open>Rename\<close> and \<open>Close\<close>
  return no error when the code is between 200 and 299 and otherwise the error
  \<open>bad response code: \<close> followed by the status text. \<open>Create\<close> returns that same error
  outside 200 to 299; inside, it returns the decoded list when the body decodes and the
  decoder's error when it does not.
\<close>

theorem status_decides:
  assumes "url_Parse E u = None"
    and "RoundTrip E \<lparr>Method = m, URL = u\<rparr> = Inr (code, status, data)"
  shows
    "(list_client l = Some c \<and> m = ''PUT'' \<and> u = Rename_restURL c l newName \<longrightarrow>
        Rename E l newName w =
          (Return (if 200 \<le> code \<and> code \<le> 299 then None
                   else Some (errors_New (''bad response code: '' @ status))),
           w\<lparr>sent := sent w @ [\<lparr>Method = m, URL = u\<rparr>], bodies := bodies w @ [True]\<rparr>))
     \<and> (list_client l = Some c \<and> m = ''PUT'' \<and> u = Close_restURL c l \<longrightarrow>
        Close E l w =
          (Return (if 200 \<le> code \<and> code \<le> 299 then None
                   else Some (errors_New (''bad response code: '' @ status))),
           w\<lparr>sent := sent w @ [\<lparr>Method = m, URL = u\<rparr>], bodies := bodies w @ [True]\<rparr>))
     \<and> (ls_client s = Some c \<and> m = ''POST'' \<and> u = Create_restURL c name boardID pos \<longrightarrow>
        fst (Create E s name boardID pos w) =
          Return (if 200 \<le> code \<and> code \<le> 299
                  then (case Decode_list E data
                               \<lparr>list_client = Some c, list_ID = [], ListName = []\<rparr> of
                          Inl err \<Rightarrow> (None, Some err)
                        | Inr ll \<Rightarrow> (Some ll, None))
                  else (None, Some (errors_New (''bad response code: '' @ status))))
        \<and> sent (snd (Create E s name boardID pos w)) = sent w @ [\<lparr>Method = m, URL = u\<rparr>])
     \<and> Error (errors_New (''bad response code: '' @ status)) = ''bad response code: '' @ status"
proof -
  have r: "list_client l = Some c \<and> m = ''PUT'' \<and> u = Rename_restURL c l newName \<longrightarrow>
        Rename E l newName w =
          (Return (if 200 \<le> code \<and> code \<le> 299 then None
                   else Some (errors_New (''bad response code: '' @ status))),
           w\<lparr>sent := sent w @ [\<lparr>Method = m, URL = u\<rparr>], bodies := bodies w @ [True]\<rparr>)"
    using assms by (auto simp add: Rename_run)
  have c: "list_client l = Some c \<and> m = ''PUT'' \<and> u = Close_restURL c l \<longrightarrow>
        Close E l w =
          (Return (if 200 \<le> code \<and> code \<le> 299 then None
                   else Some (errors_New (''bad response code: '' @ status))),
           w\<lparr>sent := sent w @ [\<lparr>Method = m, URL = u\<rparr>], bodies := bodies w @ [True]\<rparr>)"
    using assms by (auto simp add: Close_run)
  have k: "ls_client s = Some c \<and> m = ''POST'' \<and> u = Create_restURL c name boardID pos \<longrightarrow>
        fst (Create E s name boardID pos w) =
          Return (if 200 \<le> code \<and> code \<le> 299
                  then (case Decode_list E data
                               \<lparr>list_client = Some c, list_ID = [], ListName = []\<rparr> of
                          Inl err \<Rightarrow> (None, Some err)
                        | Inr ll \<Rightarrow> (Some ll, None))
                  else (None, Some (errors_New (''bad response code: '' @ status))))
        \<and> sent (snd (Create E s name boardID pos w)) = sent w @ [\<lparr>Method = m, URL = u\<rparr>]"
    using assms by (auto simp add: Create_run split: sum.splits)
  from r c k show ?thesis
    by (simp only: errors_New_Error)
qed

text \<open>
  The claim as stated fails for \<open>Create\<close>: a 204 answer has an empty body, the decoder
  reports \<open>EOF\<close>, and \<open>Create\<close> returns that error although the code is in the range.
\<close>

theorem Create_2xx_decode_failure:
  "Create (mock_server 204 ''204 No Content'' []) (ListService (NewClient ''K'' ''T''))
       ''Doing'' ''B1'' [] w0 =
     (Return (None, Some (json_Error ''EOF'')),
      \<lparr>sent = [\<lparr>Method = ''POST'',
                 URL = ''https://api.trello.com/1/lists?key=K&name=Doing&idBoard=B1&token=T''\<rparr>],
       bodies = [False]\<rparr>)"
  by (simp add: Create_def mock_defs op_defs url_defs)

text \<open>
  An instance: \<open>Rename\<close> against a 404, \<open>Create\<close> against a 200 with a list in the body.
\<close>

theorem status_decides_witness:
  \<open>Rename (mock_server 404 ''404 Not Found'' []) todo_list ''Done'' w0 =
     (Return (Some (errorString ''bad response code: 404 Not Found'')),
      \<lparr>sent = [\<lparr>Method = ''PUT'',
                 URL = ''https://api.trello.com/1/lists/L1/name?key=K&value=Done&token=T''\<rparr>],
       bodies = [True]\<rparr>)
   \<and> fst (Create (mock_server 200 ''200 OK'' ''{"id":"L2","name":"Doing"}'')
            (ListService (NewClient ''K'' ''T'')) ''Doing'' ''B1'' ''top'' w0) =
       Return (Some \<lparr>list_client = Some (NewClient ''K'' ''T''), list_ID = ''L2'',
                     ListName = ''Doing''\<rparr>, None)\<close>
proof -
  let ?c = "NewClient ''K'' ''T''"
  let ?E = "mock_server 404 ''404 Not Found'' []"
  let ?F = \<open>mock_server 200 ''200 OK'' ''{"id":"L2","name":"Doing"}''\<close>
  have 1: "url_Parse ?E (Rename_restURL ?c todo_list ''Done'') = None"
    by (simp add: mock_server_def)
  have 2: "RoundTrip ?E \<lparr>Method = ''PUT'', URL = Rename_restURL ?c todo_list ''Done''\<rparr>
      = Inr (404, ''404 Not Found'', [])"
    by (simp add: mock_server_def)
  have 3: "url_Parse ?F (Create_restURL ?c ''Doing'' ''B1'' ''top'') = None"
    by (simp add: mock_server_def)
  have 4: \<open>RoundTrip ?F \<lparr>Method = ''POST'', URL = Create_restURL ?c ''Doing'' ''B1'' ''top''\<rparr>
      = Inr (200, ''200 OK'', ''{"id":"L2","name":"Doing"}'')\<close>
    by (simp add: mock_server_def)
  have a: "Rename ?E todo_list ''Done'' w0 =
      (Return (Some (errors_New (''bad response code: '' @ ''404 Not Found''))),
       w0\<lparr>sent := sent w0 @ [\<lparr>Method = ''PUT'', URL = Rename_restURL ?c todo_list ''Done''\<rparr>],
          bodies := bodies w0 @ [True]\<rparr>)"
    using status_decides [OF 1 2, where l = todo_list and c = ?c and newName = "''Done''"
        and w = w0]
    by (simp add: todo_list_def)
  have b: \<open>fst (Create ?F (ListService ?c) ''Doing'' ''B1'' ''top'' w0) =
      Return (case Decode_list ?F ''{"id":"L2","name":"Doing"}''
                     \<lparr>list_client = Some ?c, list_ID = [], ListName = []\<rparr> of
                Inl err \<Rightarrow> (None, Some err)
              | Inr ll \<Rightarrow> (Some ll, None))\<close>
    using status_decides [OF 3 4, where s = "ListService ?c" and c = ?c and name = "''Doing''"
        and boardID = "''B1''" and pos = "''top''" and w = w0]
    by (simp add: ListService_def)
  show ?thesis
    unfolding a b
    by (simp add: mock_defs op_defs url_defs)
qed

subsection \<open>The request of GetBoard\<close>

text \<open>
  Claim C4, amended. When the URL parses, \<open>GetBoard\<close> sends exactly one request, a GET
  to \<open>baseURL/1/boards/id?key=key\<close>, followed by \<open>&token=token\<close> exactly when the token
  is not empty. The id is part of the path: for an id without \<open>?\<close> and \<open>#\<close>, and a key
  and token without \<open>#\<close>, the query string is \<open>key=key\<close> with the token parameter
  appended to it, and nothing else.
\<close>

theorem GetBoard_request:
  assumes "url_Parse E (GetBoard_restURL c id') = None"
  shows "sent (snd (GetBoard E (BoardService c) id' w)) =
           sent w @ [\<lparr>Method = ''GET'', URL = GetBoard_restURL c id'\<rparr>]
     \<and> GetBoard_restURL c id' =
         baseURL @ ''/1/boards/'' @ id' @ ''?key='' @ key c
           @ (if token c = [] then [] else ''&token='' @ token c)
     \<and> (CHR ''?'' \<notin> set id' \<and> CHR ''#'' \<notin> set id' \<and> CHR ''#'' \<notin> set (key c)
          \<and> CHR ''#'' \<notin> set (token c) \<longrightarrow>
        RawQuery (GetBoard_restURL c id') =
          ''key='' @ key c @ (if token c = [] then [] else ''&token='' @ token c))"
proof -
  have one: "sent (snd (GetBoard E (BoardService c) id' w)) =
           sent w @ [\<lparr>Method = ''GET'', URL = GetBoard_restURL c id'\<rparr>]"
    using assms GetBoard_run [of "BoardService c" c E id' w]
    by (simp add: BoardService_def split: sum.split prod.split)
  have url: "GetBoard_restURL c id' =
         baseURL @ ''/1/boards/'' @ id' @ ''?key='' @ key c
           @ (if token c = [] then [] else ''&token='' @ token c)"
    by (simp add: GetBoard_restURL_def Let_def)
  from one url GetBoard_RawQuery [of id' c] show ?thesis by blast
qed

text \<open>
  The claim as stated fails: for the board \<open>B1\<close>, the key \<open>K\<close> and no token, the query
  string of the request is \<open>key=K\<close>; the id is not in it.
\<close>

theorem GetBoard_id_outside_query:
  \<open>sent (snd (GetBoard (mock_server 200 ''200 OK'' ''{"id":"B1","name":"Roadmap"}'')
                (BoardService (NewClient ''K'' [])) ''B1'' w0)) =
     [\<lparr>Method = ''GET'', URL = ''https://api.trello.com/1/boards/B1?key=K''\<rparr>]
   \<and> RawQuery ''https://api.trello.com/1/boards/B1?key=K'' = ''key=K''
   \<and> \<not> sublist ''B1'' (RawQuery ''https://api.trello.com/1/boards/B1?key=K'')\<close>
  by (simp add: GetBoard_def mock_defs op_defs url_defs RawQuery_def sublist_code)

text \<open>
  An instance with a token.
\<close>

theorem GetBoard_request_witness:
  \<open>sent (snd (GetBoard (mock_server 200 ''200 OK'' ''{"id":"B1","name":"Roadmap"}'')
                (BoardService (NewClient ''K'' ''T'')) ''B1'' w0)) =
     [\<lparr>Method = ''GET'', URL = ''https://api.trello.com/1/boards/B1?key=K&token=T''\<rparr>]
   \<and> RawQuery (GetBoard_restURL (NewClient ''K'' ''T'') ''B1'') = ''key=K&token=T''\<close>
proof -
  let ?E = \<open>mock_server 200 ''200 OK'' ''{"id":"B1","name":"Roadmap"}''\<close>
  have 1: "url_Parse ?E (GetBoard_restURL (NewClient ''K'' ''T'') ''B1'') = None"
    by (simp add: mock_server_def)
  note t = GetBoard_request [OF 1, where w = w0]
  have q: "RawQuery (GetBoard_restURL (NewClient ''K'' ''T'') ''B1'') =
      ''key='' @ key (NewClient ''K'' ''T'')
        @ (if token (NewClient ''K'' ''T'') = [] then []
           else ''&token='' @ token (NewClient ''K'' ''T''))"
    using t [THEN conjunct2, THEN conjunct2] by (simp add: NewClient_def)
  show ?thesis
    by (simp only: t [THEN conjunct1] q) (simp add: url_defs NewClient_def w0_def baseURL_def)
qed

subsection \<open>A board without lists\<close>

text \<open>
  Claim C5. When the answer to the request of \<open>Lists\<close> decodes to a board whose \<open>lists\<close>
  member is absent (a nil slice) or an empty array, \<open>Lists\<close> returns an empty slice that is
  not nil, and no error.
\<close>

theorem Lists_no_lists:
  assumes "board_client b = Some c"
    and "url_Parse E (Lists_restURL c b) = None"
    and "RoundTrip E \<lparr>Method = ''GET'', URL = Lists_restURL c b\<rparr> = Inr (code, status, data)"
    and "json_board E data = Inr d"
    and "BoardLists d = None \<or> BoardLists d = Some []"
  shows "fst (Lists E b w) = Return (Some [], None)"
proof -
  from assms(5) have "elems (BoardLists d) = []"
    by (auto simp add: elems_def)
  then show ?thesis
    by (simp add: Lists_answer [OF assms(1-4)])
qed

text \<open>
  An instance for each of the two bodies.
\<close>

theorem Lists_no_lists_witness:
  \<open>fst (Lists (mock_server 200 ''200 OK'' ''{"id":"B1","name":"Roadmap","lists":[]}'')
          (zero_board\<lparr>board_client := Some (NewClient ''K'' ''T''), board_ID := ''B1''\<rparr>) w0)
     = Return (Some [], None)
   \<and> fst (Lists (mock_server 200 ''200 OK'' ''{"id":"B1","name":"Roadmap"}'')
          (zero_board\<lparr>board_client := Some (NewClient ''K'' ''T''), board_ID := ''B1''\<rparr>) w0)
     = Return (Some [], None)\<close>
proof -
  let ?b = "zero_board\<lparr>board_client := Some (NewClient ''K'' ''T''), board_ID := ''B1''\<rparr>"
  let ?c = "NewClient ''K'' ''T''"
  let ?E = \<open>mock_server 200 ''200 OK'' ''{"id":"B1","name":"Roadmap","lists":[]}''\<close>
  let ?F = \<open>mock_server 200 ''200 OK'' ''{"id":"B1","name":"Roadmap"}''\<close>
  have b: "board_client ?b = Some ?c" by simp
  have e1: "url_Parse ?E (Lists_restURL ?c ?b) = None" by (simp add: mock_server_def)
  have e2: \<open>RoundTrip ?E \<lparr>Method = ''GET'', URL = Lists_restURL ?c ?b\<rparr> =
      Inr (200, ''200 OK'', ''{"id":"B1","name":"Roadmap","lists":[]}'')\<close>
    by (simp add: mock_server_def)
  have e3: \<open>json_board ?E ''{"id":"B1","name":"Roadmap","lists":[]}'' =
      Inr (zero_board\<lparr>board_ID := ''B1'', BoardName := ''Roadmap'', BoardLists := Some []\<rparr>)\<close>
    by (simp add: mock_server_def mock_json_board_def)
  have f1: "url_Parse ?F (Lists_restURL ?c ?b) = None" by (simp add: mock_server_def)
  have f2: \<open>RoundTrip ?F \<lparr>Method = ''GET'', URL = Lists_restURL ?c ?b\<rparr> =
      Inr (200, ''200 OK'', ''{"id":"B1","name":"Roadmap"}'')\<close>
    by (simp add: mock_server_def)
  have f3: \<open>json_board ?F ''{"id":"B1","name":"Roadmap"}'' =
      Inr (zero_board\<lparr>board_ID := ''B1'', BoardName := ''Roadmap''\<rparr>)\<close>
    by (simp add: mock_server_def mock_json_board_def)
  have "fst (Lists ?E ?b w0) = Return (Some [], None)"
    by (rule Lists_no_lists [OF b e1 e2 e3]) simp
  moreover have "fst (Lists ?F ?b w0) = Return (Some [], None)"
    by (rule Lists_no_lists [OF b f1 f2 f3]) (simp add: zero_board_def)
  ultimately show ?thesis by simp
qed

subsection \<open>Escaped names\<close>

text \<open>
  Claim C6, amended. For a list id and a key without \<open>#\<close>, the one request that
  \<open>Rename\<close> sends has in its query string the parameter \<open>value\<close> with the escaped name as
  its value, and the one request that \<open>Create\<close> sends (where only the key matters) has the
  parameters \<open>name\<close> and \<open>idBoard\<close> with the escaped name and the escaped board id. The
  escaping works byte by byte: a space becomes \<open>+\<close>, an \<open>&\<close> becomes \<open>%26\<close>; an escaped
  text consists of unreserved characters, \<open>+\<close> and \<open>%\<close> with two hexadecimal digits, so it
  contains none of the delimiters, and unescaping it gives the argument back.
\<close>

theorem names_escaped:
  assumes "list_client l = Some c"
    and "url_Parse E (Rename_restURL c l name) = None"
    and "url_Parse E (Create_restURL c name boardID pos) = None"
    and "CHR ''#'' \<notin> set (list_ID l)" and "CHR ''#'' \<notin> set (key c)"
  shows "sent (snd (Rename E l name w)) =
           sent w @ [\<lparr>Method = ''PUT'', URL = Rename_restURL c l name\<rparr>]
     \<and> (''value'', QueryEscape name) \<in> set (query_params (Rename_restURL c l name))
     \<and> sent (snd (Create E (ListService c) name boardID pos w)) =
           sent w @ [\<lparr>Method = ''POST'', URL = Create_restURL c name boardID pos\<rparr>]
     \<and> (''name'', QueryEscape name) \<in> set (query_params (Create_restURL c name boardID pos))
     \<and> (''idBoard'', QueryEscape boardID)
          \<in> set (query_params (Create_restURL c name boardID pos))
     \<and> Rename_restURL c l name =
          baseURL @ ''/1/lists/'' @ list_ID l @ ''/name?key='' @ key c
            @ ''&value='' @ QueryEscape name
            @ (if token c = [] then [] else ''&token='' @ token c)
     \<and> Create_restURL c name boardID pos =
          baseURL @ ''/1/lists?key='' @ key c
            @ ''&name='' @ QueryEscape name
            @ ''&idBoard='' @ QueryEscape boardID
            @ (if pos = [] then [] else ''&pos='' @ pos)
            @ (if token c = [] then [] else ''&token='' @ token c)
     \<and> set (QueryEscape name) \<subseteq> set unreserved \<union> {CHR ''+'', CHR ''%''}
     \<and> set (QueryEscape boardID) \<subseteq> set unreserved \<union> {CHR ''+'', CHR ''%''}
     \<and> (\<forall>d\<in>set delimiters. d \<notin> set (QueryEscape name) \<and> d \<notin> set (QueryEscape boardID))
     \<and> QueryUnescape (QueryEscape name) = Some name
     \<and> QueryUnescape (QueryEscape boardID) = Some boardID
     \<and> QueryEscape (a @ b) = QueryEscape a @ QueryEscape b
     \<and> QueryEscape ''&'' = ''%26'' \<and> QueryEscape '' '' = ''+''"
proof -
  have "sent (snd (Rename E l name w)) =
      sent w @ [\<lparr>Method = ''PUT'', URL = Rename_restURL c l name\<rparr>]"
    using assms(1,2) by (rule Rename_one_request)
  moreover have "sent (snd (Create E (ListService c) name boardID pos w)) =
      sent w @ [\<lparr>Method = ''POST'', URL = Create_restURL c name boardID pos\<rparr>]"
    using assms(3) by (intro Create_one_request) (simp_all add: ListService_def)
  moreover have "Rename_restURL c l name =
      baseURL @ ''/1/lists/'' @ list_ID l @ ''/name?key='' @ key c
        @ ''&value='' @ QueryEscape name
        @ (if token c = [] then [] else ''&token='' @ token c)"
    by (simp add: Rename_restURL_def Let_def)
  moreover have "Create_restURL c name boardID pos =
      baseURL @ ''/1/lists?key='' @ key c @ ''&name='' @ QueryEscape name
        @ ''&idBoard='' @ QueryEscape boardID
        @ (if pos = [] then [] else ''&pos='' @ pos)
        @ (if token c = [] then [] else ''&token='' @ token c)"
    by (simp add: Create_restURL_def Let_def)
  moreover have "\<forall>d\<in>set delimiters. d \<notin> set (QueryEscape name) \<and> d \<notin> set (QueryEscape boardID)"
    using QueryEscape_no_delimiter by blast
  moreover have "QueryEscape ''&'' = ''%26''" "QueryEscape '' '' = ''+''"
    by (simp_all add: shouldEscape_def unreserved_def upperhex_def)
  moreover note Rename_query_value [OF assms(4,5), of name]
    Create_query_name [OF assms(5), of name boardID pos]
    QueryEscape_chars [of name] QueryEscape_chars [of boardID]
    QueryUnescape_QueryEscape [of name] QueryUnescape_QueryEscape [of boardID]
    QueryEscape_append [of a b]
  ultimately show ?thesis
    by blast
qed

text \<open>
  The claim as stated fails: the key is inserted as it is, so with the key \<open>K#\<close> the
  fragment starts before the name; the query string of the request is \<open>key=K\<close> and carries
  no name at all. The space of the name \<open>To do\<close> is sent as \<open>+\<close>, not as a percent escape.
\<close>

theorem name_cut_by_hash:
  "sent (snd (Rename (mock_server 200 ''200 OK'' [])
                \<lparr>list_client = Some (NewClient ''K#'' ''T''), list_ID = ''L1'', ListName = ''Todo''\<rparr>
                ''To do'' w0)) =
     [\<lparr>Method = ''PUT'',
       URL = ''https://api.trello.com/1/lists/L1/name?key=K#&value=To+do&token=T''\<rparr>]
   \<and> RawQuery ''https://api.trello.com/1/lists/L1/name?key=K#&value=To+do&token=T'' = ''key=K''
   \<and> query_params ''https://api.trello.com/1/lists/L1/name?key=K#&value=To+do&token=T'' =
       [(''key'', ''K'')]
   \<and> \<not> sublist ''To'' (RawQuery ''https://api.trello.com/1/lists/L1/name?key=K#&value=To+do&token=T'')"
  by (simp add: Rename_def mock_defs op_defs url_defs RawQuery_def query_params_def sublist_code)

text \<open>
  An instance: a name with spaces and \<open>&\<close>, a board id with \<open>/\<close>.
\<close>

theorem names_escaped_witness:
  "sent (snd (Rename (mock_server 200 ''200 OK'' []) todo_list ''To do & more'' w0)) =
     [\<lparr>Method = ''PUT'',
       URL = ''https://api.trello.com/1/lists/L1/name?key=K&value=To+do+%26+more&token=T''\<rparr>]
   \<and> (''value'', ''To+do+%26+more'')
        \<in> set (query_params (Rename_restURL (NewClient ''K'' ''T'') todo_list ''To do & more''))
   \<and> sent (snd (Create (mock_server 200 ''200 OK'' []) (ListService (NewClient ''K'' ''T''))
                  ''To do & more'' ''B/1'' [] w0)) =
     [\<lparr>Method = ''POST'',
       URL = ''https://api.trello.com/1/lists?key=K&name=To+do+%26+more&idBoard=B%2F1&token=T''\<rparr>]
   \<and> (''idBoard'', ''B%2F1'')
        \<in> set (query_params (Create_restURL (NewClient ''K'' ''T'') ''To do & more'' ''B/1'' []))
   \<and> QueryUnescape ''To+do+%26+more'' = Some ''To do & more''"
proof -
  let ?E = "mock_server 200 ''200 OK'' []"
  let ?c = "NewClient ''K'' ''T''"
  have l: "list_client todo_list = Some ?c" by (simp add: todo_list_def)
  have 1: "url_Parse ?E (Rename_restURL ?c todo_list ''To do & more'') = None"
    by (simp add: mock_server_def)
  have 2: "url_Parse ?E (Create_restURL ?c ''To do & more'' ''B/1'' []) = None"
    by (simp add: mock_server_def)
  have h: "CHR ''#'' \<notin> set (list_ID todo_list)" "CHR ''#'' \<notin> set (key ?c)"
    by (simp_all add: todo_list_def NewClient_def)
  have q: "QueryEscape ''To do & more'' = ''To+do+%26+more''" "QueryEscape ''B/1'' = ''B%2F1''"
    by (simp_all add: shouldEscape_def unreserved_def upperhex_def)
  note t = names_escaped [OF l 1 2 h, where w = w0]
  have a: "sent (snd (Rename ?E todo_list ''To do & more'' w0)) =
      sent w0 @ [\<lparr>Method = ''PUT'', URL = Rename_restURL ?c todo_list ''To do & more''\<rparr>]"
    using t by blast
  have b: "sent (snd (Create ?E (ListService ?c) ''To do & more'' ''B/1'' [] w0)) =
      sent w0 @ [\<lparr>Method = ''POST'', URL = Create_restURL ?c ''To do & more'' ''B/1'' []\<rparr>]"
    using t by blast
  have v: "(''value'', ''To+do+%26+more'')
        \<in> set (query_params (Rename_restURL ?c todo_list ''To do & more''))"
    using t unfolding q by blast
  have i: "(''idBoard'', ''B%2F1'')
        \<in> set (query_params (Create_restURL ?c ''To do & more'' ''B/1'' []))"
    using t unfolding q by blast
  have u: "QueryUnescape ''To+do+%26+more'' = Some ''To do & more''"
    using t unfolding q by blast
  show ?thesis
    by (simp only: a b v i u) (simp add: url_defs todo_list_def NewClient_def w0_def baseURL_def)
qed

subsection \<open>The pos parameter\<close>

text \<open>
  Claim C7, amended. For a client whose key contains neither \<open>&\<close> nor \<open>#\<close> and whose
  token contains no \<open>&\<close>, the URL of the request that \<open>Create\<close> sends has a \<open>pos\<close>
  parameter in its query if and only if the argument \<open>pos\<close> is not empty.
\<close>

theorem pos_parameter:
  assumes "CHR ''&'' \<notin> set (key c)" and "CHR ''#'' \<notin> set (key c)"
    and "CHR ''&'' \<notin> set (token c)"
    and "url_Parse E (Create_restURL c name boardID pos) = None"
  shows "sent (snd (Create E (ListService c) name boardID pos w)) =
           sent w @ [\<lparr>Method = ''POST'', URL = Create_restURL c name boardID pos\<rparr>]
     \<and> (has_param ''pos'' (Create_restURL c name boardID pos) \<longleftrightarrow> pos \<noteq> [])"
  using has_param_pos [OF assms(1-3)] Create_one_request [OF _ assms(4), of "ListService c"]
  by (simp add: ListService_def)

text \<open>
  The claim as stated fails: the key is inserted as it is, so the key \<open>K&pos=top\<close> puts
  a \<open>pos\<close> parameter into the URL although the argument \<open>pos\<close> is empty.
\<close>

theorem pos_from_key:
  "sent (snd (Create (mock_server 200 ''200 OK'' []) (ListService (NewClient ''K&pos=top'' []))
                ''Todo'' ''B1'' [] w0)) =
     [\<lparr>Method = ''POST'',
       URL = ''https://api.trello.com/1/lists?key=K&pos=top&name=Todo&idBoard=B1''\<rparr>]
   \<and> has_param ''pos'' ''https://api.trello.com/1/lists?key=K&pos=top&name=Todo&idBoard=B1''"
  by (simp add: Create_def mock_defs op_defs url_defs has_param_def query_names_def RawQuery_def)

text \<open>
  An instance with \<open>pos\<close> given, and one with \<open>pos\<close> empty.
\<close>

theorem pos_parameter_witness:
  "has_param ''pos'' (Create_restURL (NewClient ''K'' ''T'') ''Todo'' ''B1'' ''top'')
   \<and> \<not> has_param ''pos'' (Create_restURL (NewClient ''K'' ''T'') ''Todo'' ''B1'' [])
   \<and> sent (snd (Create (mock_server 200 ''200 OK'' []) (ListService (NewClient ''K'' ''T''))
                  ''Todo'' ''B1'' ''top'' w0)) =
       [\<lparr>Method = ''POST'',
         URL = ''https://api.trello.com/1/lists?key=K&name=Todo&idBoard=B1&pos=top&token=T''\<rparr>]"
proof -
  let ?E = "mock_server 200 ''200 OK'' []"
  let ?c = "NewClient ''K'' ''T''"
  have k: "CHR ''&'' \<notin> set (key ?c)" "CHR ''#'' \<notin> set (key ?c)" "CHR ''&'' \<notin> set (token ?c)"
    by (simp_all add: NewClient_def)
  have p: "url_Parse ?E u = None" for u by (simp add: mock_server_def)
  show ?thesis
    using pos_parameter [OF k p, of "''Todo''" "''B1''" "''top''" w0]
      pos_parameter [OF k p, of "''Todo''" "''B1''" "[]" w0]
    by (simp add: w0_def) (simp add: url_defs NewClient_def baseURL_def)
qed

subsection \<open>The client reference\<close>

text \<open>
  Claim C8. The board that \<open>GetBoard\<close> returns, every list that \<open>Lists\<close> returns and the
  list that \<open>Create\<close> returns hold the client of the service or board they came from, and
  it is not nil. With that reference \<open>Lists\<close>, \<open>Rename\<close> and \<open>Close\<close> build their request
  from the client's key and token: whatever they send is the URL formatted for that client.
\<close>

theorem client_reference:
  "(GetBoard E (BoardService c) id' w = (Return (Some b, e), w') \<longrightarrow> board_client b = Some c)
   \<and> (board_client b = Some c \<and> Lists E b w = (Return (Some ls, e), w') \<longrightarrow>
        (\<forall>x\<in>set ls. \<exists>l. x = Some l \<and> list_client l = Some c))
   \<and> (Create E (ListService c) name boardID pos w = (Return (Some l, e), w') \<longrightarrow>
        list_client l = Some c)
   \<and> (board_client b = Some c \<longrightarrow>
        sent (snd (Lists E b w)) = sent w \<or>
        sent (snd (Lists E b w)) = sent w @ [\<lparr>Method = ''GET'', URL = Lists_restURL c b\<rparr>])
   \<and> (list_client l = Some c \<longrightarrow>
        (sent (snd (Rename E l newName w)) = sent w \<or>
         sent (snd (Rename E l newName w)) =
           sent w @ [\<lparr>Method = ''PUT'', URL = Rename_restURL c l newName\<rparr>]) \<and>
        (sent (snd (Close E l w)) = sent w \<or>
         sent (snd (Close E l w)) = sent w @ [\<lparr>Method = ''PUT'', URL = Close_restURL c l\<rparr>]))"
  using GetBoard_client [of E c id' w b e w'] Create_client [of E c name boardID pos w l e w']
    Lists_client [of b c E w ls e w'] Lists_sent [of b c E w] Rename_sent [of l c E newName w]
    Close_sent [of l c E w]
  by blast

text \<open>
  An instance: a board with one list, fetched, listed and renamed.
\<close>

theorem client_reference_witness:
  \<open>GetBoard (mock_server 200 ''200 OK''
               ''{"id":"B1","name":"Roadmap","lists":[{"id":"L1","name":"Todo"}]}'')
       (BoardService (NewClient ''K'' ''T'')) ''B1'' w0 =
     (Return (Some (zero_board\<lparr>board_client := Some (NewClient ''K'' ''T''), board_ID := ''B1'',
                      BoardName := ''Roadmap'',
                      BoardLists := Some [Some \<lparr>list_client = None, list_ID = ''L1'',
                                                ListName = ''Todo''\<rparr>]\<rparr>), None),
      \<lparr>sent = [\<lparr>Method = ''GET'', URL = ''https://api.trello.com/1/boards/B1?key=K&token=T''\<rparr>],
       bodies = [False]\<rparr>)
   \<and> Lists (mock_server 200 ''200 OK''
               ''{"id":"B1","name":"Roadmap","lists":[{"id":"L1","name":"Todo"}]}'')
       (zero_board\<lparr>board_client := Some (NewClient ''K'' ''T''), board_ID := ''B1'',
                      BoardName := ''Roadmap'',
                      BoardLists := Some [Some \<lparr>list_client = None, list_ID = ''L1'',
                                                ListName = ''Todo''\<rparr>]\<rparr>) w0 =
     (Return (Some [Some todo_list], None),
      \<lparr>sent = [\<lparr>Method = ''GET'',
                 URL = ''https://api.trello.com/1/boards/B1?key=K&lists=all&token=T''\<rparr>],
       bodies = [False]\<rparr>)
   \<and> list_client todo_list = Some (NewClient ''K'' ''T'')
   \<and> sent (snd (Rename (mock_server 200 ''200 OK'' []) todo_list ''Done'' w0)) =
       [\<lparr>Method = ''PUT'',
         URL = ''https://api.trello.com/1/lists/L1/name?key=K&value=Done&token=T''\<rparr>]\<close>
proof -
  let ?c = "NewClient ''K'' ''T''"
  let ?E = \<open>mock_server 200 ''200 OK''
               ''{"id":"B1","name":"Roadmap","lists":[{"id":"L1","name":"Todo"}]}''\<close>
  let ?F = "mock_server 200 ''200 OK'' []"
  let ?b = "zero_board\<lparr>board_client := Some ?c, board_ID := ''B1'',
                      BoardName := ''Roadmap'',
                      BoardLists := Some [Some \<lparr>list_client = None, list_ID = ''L1'',
                                                ListName = ''Todo''\<rparr>]\<rparr>"
  let ?w1 = "\<lparr>sent = [\<lparr>Method = ''GET'',
                         URL = ''https://api.trello.com/1/boards/B1?key=K&token=T''\<rparr>],
               bodies = [False]\<rparr>"
  let ?w2 = "\<lparr>sent = [\<lparr>Method = ''GET'',
                 URL = ''https://api.trello.com/1/boards/B1?key=K&lists=all&token=T''\<rparr>],
       bodies = [False]\<rparr>"
  have g: "GetBoard ?E (BoardService ?c) ''B1'' w0 = (Return (Some ?b, None), ?w1)"
    by (simp add: GetBoard_def mock_defs op_defs url_defs)
  have l: "Lists ?E ?b w0 = (Return (Some [Some todo_list], None), ?w2)"
    by (simp add: Lists_def mock_defs op_defs url_defs elems_def)
  have a: "board_client ?b = Some ?c"
    using client_reference [where E = ?E and c = ?c and id' = "''B1''" and w = w0 and b = ?b
        and e = None and w' = ?w1] g
    by blast
  have "\<forall>x\<in>set [Some todo_list]. \<exists>l. x = Some l \<and> list_client l = Some ?c"
    using client_reference [where E = ?E and c = ?c and w = w0 and b = ?b
        and e = None and w' = ?w2 and ls = "[Some todo_list]"] a l
    by blast
  then have b: "list_client todo_list = Some ?c"
    by simp
  have "sent (snd (Rename ?F todo_list ''Done'' w0)) = sent w0 \<or>
      sent (snd (Rename ?F todo_list ''Done'' w0)) =
        sent w0 @ [\<lparr>Method = ''PUT'', URL = Rename_restURL ?c todo_list ''Done''\<rparr>]"
    using client_reference [where E = ?F and c = ?c and w = w0 and l = todo_list
        and newName = "''Done''"] b
    by blast
  moreover have "sent (snd (Rename ?F todo_list ''Done'' w0)) \<noteq> sent w0"
    by (simp add: Rename_def mock_defs op_defs url_defs)
  ultimately have r: "sent (snd (Rename ?F todo_list ''Done'' w0)) =
        sent w0 @ [\<lparr>Method = ''PUT'', URL = Rename_restURL ?c todo_list ''Done''\<rparr>]"
    by blast
  show ?thesis
    by (simp only: g l b r) (simp add: url_defs mock_defs baseURL_def)
qed

subsection \<open>Values inserted as they are\<close>

text \<open>
  Claim C9. Each URL is the concatenation of fixed text with the board or list id, the
  key, the token and \<open>pos\<close> as they are; only the name and the board id of \<open>Create\<close> and
  the new name of \<open>Rename\<close> go through the escaping. So every delimiter in an id, a key, a
  token or \<open>pos\<close> is one more delimiter of the URL, while an escaped argument adds none.
\<close>

theorem verbatim_values:
  "GetBoard_restURL c id' =
     baseURL @ ''/1/boards/'' @ id' @ ''?key='' @ key c
       @ (if token c = [] then [] else ''&token='' @ token c)
   \<and> Lists_restURL c b =
     baseURL @ ''/1/boards/'' @ board_ID b @ ''?key='' @ key c @ ''&lists=all''
       @ (if token c = [] then [] else ''&token='' @ token c)
   \<and> Rename_restURL c l newName =
     baseURL @ ''/1/lists/'' @ list_ID l @ ''/name?key='' @ key c
       @ ''&value='' @ QueryEscape newName
       @ (if token c = [] then [] else ''&token='' @ token c)
   \<and> Close_restURL c l =
     baseURL @ ''/1/lists/'' @ list_ID l @ ''/name?key='' @ key c @ ''&value=true''
       @ (if token c = [] then [] else ''&token='' @ token c)
   \<and> Create_restURL c name boardID pos =
     baseURL @ ''/1/lists?key='' @ key c @ ''&name='' @ QueryEscape name
       @ ''&idBoard='' @ QueryEscape boardID
       @ (if pos = [] then [] else ''&pos='' @ pos)
       @ (if token c = [] then [] else ''&token='' @ token c)
   \<and> (d \<in> set delimiters \<longrightarrow>
        count_list (GetBoard_restURL c id') d =
          count_list (GetBoard_restURL \<lparr>key = [], token = []\<rparr> []) d
            + count_list id' d + count_list (key c) d
            + count_list (if token c = [] then [] else ''&token='' @ token c) d
      \<and> count_list (Rename_restURL c l newName) d =
          count_list (Rename_restURL \<lparr>key = [], token = []\<rparr> (l\<lparr>list_ID := []\<rparr>) []) d
            + count_list (list_ID l) d + count_list (key c) d
            + count_list (if token c = [] then [] else ''&token='' @ token c) d
      \<and> count_list (Create_restURL c name boardID pos) d =
          count_list (Create_restURL \<lparr>key = [], token = []\<rparr> [] [] []) d
            + count_list (key c) d
            + count_list (if pos = [] then [] else ''&pos='' @ pos) d
            + count_list (if token c = [] then [] else ''&token='' @ token c) d)"
proof -
  have g: "GetBoard_restURL c id' =
     baseURL @ ''/1/boards/'' @ id' @ ''?key='' @ key c
       @ (if token c = [] then [] else ''&token='' @ token c)"
    by (simp add: GetBoard_restURL_def Let_def)
  have ls: "Lists_restURL c b =
     baseURL @ ''/1/boards/'' @ board_ID b @ ''?key='' @ key c @ ''&lists=all''
       @ (if token c = [] then [] else ''&token='' @ token c)"
    by (simp add: Lists_restURL_def Let_def)
  have r: "Rename_restURL c l newName =
     baseURL @ ''/1/lists/'' @ list_ID l @ ''/name?key='' @ key c
       @ ''&value='' @ QueryEscape newName
       @ (if token c = [] then [] else ''&token='' @ token c)"
    by (simp add: Rename_restURL_def Let_def)
  have cl: "Close_restURL c l =
     baseURL @ ''/1/lists/'' @ list_ID l @ ''/name?key='' @ key c @ ''&value=true''
       @ (if token c = [] then [] else ''&token='' @ token c)"
    by (simp add: Close_restURL_def Let_def)
  have cr: "Create_restURL c name boardID pos =
     baseURL @ ''/1/lists?key='' @ key c @ ''&name='' @ QueryEscape name
       @ ''&idBoard='' @ QueryEscape boardID
       @ (if pos = [] then [] else ''&pos='' @ pos)
       @ (if token c = [] then [] else ''&token='' @ token c)"
    by (simp add: Create_restURL_def Let_def)
  from g ls r cl cr GetBoard_count [of c id' d] Rename_count [of d c l newName]
    Create_count [of d c name boardID pos]
  show ?thesis by blast
qed

text \<open>
  An instance: an \<open>&\<close> in the key adds a parameter, the one in the name does not; a
  \<open>?\<close> and a \<open>#\<close> in the board id move the query and cut the key off into the
  fragment.
\<close>

theorem verbatim_values_witness:
  "Create_restURL (NewClient ''K&x=1'' ''T'') ''a&b'' ''B1'' ''top'' =
     ''https://api.trello.com/1/lists?key=K&x=1&name=a%26b&idBoard=B1&pos=top&token=T''
   \<and> count_list (Create_restURL (NewClient ''K&x=1'' ''T'') ''a&b'' ''B1'' ''top'') CHR ''&'' = 5
   \<and> GetBoard_restURL (NewClient ''K'' []) ''B1?lists=all#'' =
     ''https://api.trello.com/1/boards/B1?lists=all#?key=K''"
proof -
  let ?c = "NewClient ''K&x=1'' ''T''"
  note t = verbatim_values [where c = ?c and name = "''a&b''" and boardID = "''B1''"
      and pos = "''top''" and d = "CHR ''&''"]
  have d: "CHR ''&'' \<in> set delimiters"
    by (simp add: delimiters_def)
  have n: "count_list (Create_restURL ?c ''a&b'' ''B1'' ''top'') CHR ''&'' =
          count_list (Create_restURL \<lparr>key = [], token = []\<rparr> [] [] []) CHR ''&''
            + count_list (key ?c) CHR ''&''
            + count_list (if ''top'' = [] then [] else ''&pos='' @ ''top'') CHR ''&''
            + count_list (if token ?c = [] then [] else ''&token='' @ token ?c) CHR ''&''"
    using t d by blast
  have u: "Create_restURL ?c ''a&b'' ''B1'' ''top'' =
     baseURL @ ''/1/lists?key='' @ key ?c @ ''&name='' @ QueryEscape ''a&b''
       @ ''&idBoard='' @ QueryEscape ''B1''
       @ (if ''top'' = [] then [] else ''&pos='' @ ''top'')
       @ (if token ?c = [] then [] else ''&token='' @ token ?c)"
    using t by blast
  have g: "GetBoard_restURL (NewClient ''K'' []) ''B1?lists=all#'' =
     baseURL @ ''/1/boards/'' @ ''B1?lists=all#'' @ ''?key='' @ key (NewClient ''K'' [])
       @ (if token (NewClient ''K'' []) = [] then []
          else ''&token='' @ token (NewClient ''K'' []))"
    using verbatim_values [where c = "NewClient ''K'' []" and id' = "''B1?lists=all#''"]
    by blast
  show ?thesis
    by (simp only: n, simp only: u g) (simp add: url_defs NewClient_def baseURL_def)
qed

end
